theory Spec2Isabelle
  imports Complex_Main "HOL-Library.Sublist"
begin

section \<open>Python strings\<close>

text \<open>
  A Python \<open>str\<close> is modelled as a \<open>string\<close>: each \<open>char\<close> stands for the code point
  of the same number, so the model covers the strings whose code points are below 256.
  \<open>is_space\<close> is Python's \<open>str.isspace\<close> on those code points: the ASCII white space
  (9 to 13, 28 to 32) and the two Latin-1 ones (U+0085, U+00A0).
\<close>

definition is_space :: "char \<Rightarrow> bool" where
  "is_space c =
     (let n = (of_char c :: nat)
      in (9 \<le> n \<and> n \<le> 13) \<or> (28 \<le> n \<and> n \<le> 32) \<or> n = 133 \<or> n = 160)"

text \<open>\<open>s.strip()\<close> and \<open>s.strip(chars)\<close>: the longest run of stripped characters is
  removed from the left, then from the right of what is left.\<close>

definition strip_by :: "(char \<Rightarrow> bool) \<Rightarrow> string \<Rightarrow> string" where
  "strip_by p s = rev (dropWhile p (rev (dropWhile p s)))"

definition str_strip :: "string \<Rightarrow> string" where
  "str_strip s = strip_by is_space s"

definition strip_chars :: "string \<Rightarrow> string \<Rightarrow> string" where
  "strip_chars chars s = strip_by (\<lambda>c. c \<in> set chars) s"

text \<open>\<open>s.split(sep)\<close> for a separator of one character: \<open>k\<close> separators give
  \<open>k + 1\<close> pieces, and the empty string gives one empty piece.\<close>

fun str_split :: "char \<Rightarrow> string \<Rightarrow> string list" where
  "str_split sep [] = [[]]"
| "str_split sep (c # cs) =
     (if c = sep then [] # str_split sep cs
      else (case str_split sep cs of
              w # ws \<Rightarrow> (c # w) # ws
            | [] \<Rightarrow> [[c]]))"

text \<open>\<open>sep.join(xs)\<close>.\<close>

fun str_join :: "string \<Rightarrow> string list \<Rightarrow> string" where
  "str_join sep [] = []"
| "str_join sep [x] = x"
| "str_join sep (x # y # ys) = x @ sep @ str_join sep (y # ys)"

text \<open>\<open>s.startswith(p)\<close> and \<open>s.count(c)\<close> for one character \<open>c\<close>.\<close>

definition startswith :: "string \<Rightarrow> string \<Rightarrow> bool" where
  "startswith p s = (take (length p) s = p)"

definition str_count :: "char \<Rightarrow> string \<Rightarrow> nat" where
  "str_count c s = count_list s c"

text \<open>\<open>str(n)\<close> for an integer: its decimal digits, with a minus sign when negative.\<close>

definition digit_char :: "nat \<Rightarrow> char" where
  "digit_char d = ''0123456789'' ! d"

fun str_nat :: "nat \<Rightarrow> string" where
  "str_nat n = (if n < 10 then [digit_char n] else str_nat (n div 10) @ [digit_char (n mod 10)])"

definition str_int :: "int \<Rightarrow> string" where
  "str_int i = (if i < 0 then CHR ''-'' # str_nat (nat (- i)) else str_nat (nat i))"

section \<open>Exceptions and results\<close>

text \<open>
  The exceptions of class \<open>Exception\<close> that the code can meet: those Python itself
  raises on the operations the code performs, and \<open>LibraryError\<close> for whatever an
  external library raises (its message is the argument). A computation that may raise
  returns \<open>exn + 'a\<close>, \<open>Inl\<close> being the exception.
\<close>

datatype exn =
    AttributeError | TypeError | IndexError | KeyError | ValueError
  | LibraryError string
  | All_methods_failed exn

definition and_then :: "exn + 'a \<Rightarrow> ('a \<Rightarrow> exn + 'b) \<Rightarrow> exn + 'b" where
  "and_then m f = (case m of Inl e \<Rightarrow> Inl e | Inr x \<Rightarrow> f x)"

section \<open>Configuration store\<close>

text \<open>
  A record of \<open>state_configs\<close>: the dictionary every function receives as
  \<open>state_info\<close>. All its keys are present in every entry of the table, so the model
  is a record and looking a key up cannot fail. The key \<open>term\<close> of the provider
  details is the field \<open>contract_term\<close>.
\<close>

record provider_details =
  fleet_size :: int
  operating_hours :: string
  driver_count :: int
  contract_term :: string

record state_info =
  state :: string
  state_abbrev :: string
  health_agency :: string
  agency_city :: string
  provider_name :: string
  provider_city :: string
  service_regions :: "string list"
  contract_date :: string
  provider_details :: provider_details

text \<open>The table, the same in both variants, in the order of its keys (the order in
  which \<open>state_configs.items()\<close> yields them).\<close>

definition state_configs :: "(string \<times> state_info) list" where
  "state_configs =
     [(''FL'',
       \<lparr>state = ''Florida'', state_abbrev = ''FL'',
        health_agency = ''Florida Department of Health'',
        agency_city = ''Tallahassee'',
        provider_name = ''SafeRide Transit Solutions'',
        provider_city = ''Orlando'',
        service_regions = [''Orange County'', ''Seminole County'', ''Osceola County''],
        contract_date = ''March 15, 2024'',
        provider_details =
          \<lparr>fleet_size = 50, operating_hours = ''24/7'', driver_count = 120,
           contract_term = ''2-year contract with 1-year renewal option''\<rparr>\<rparr>),
      (''TX'',
       \<lparr>state = ''Texas'', state_abbrev = ''TX'',
        health_agency = ''Texas Health and Human Services Commission'',
        agency_city = ''Austin'',
        provider_name = ''Lone Star Medical Transport'',
        provider_city = ''Houston'',
        service_regions = [''Harris County'', ''Fort Bend County'', ''Montgomery County''],
        contract_date = ''April 1, 2024'',
        provider_details =
          \<lparr>fleet_size = 75, operating_hours = ''24/7'', driver_count = 180,
           contract_term = ''3-year contract with two 1-year renewal options''\<rparr>\<rparr>),
      (''CA'',
       \<lparr>state = ''California'', state_abbrev = ''CA'',
        health_agency = ''California Department of Health Care Services'',
        agency_city = ''Sacramento'',
        provider_name = ''Pacific Coast Medical Transport'',
        provider_city = ''Los Angeles'',
        service_regions = [''Los Angeles County'', ''Orange County'', ''Ventura County''],
        contract_date = ''May 1, 2024'',
        provider_details =
          \<lparr>fleet_size = 100, operating_hours = ''24/7'', driver_count = 250,
           contract_term = ''4-year contract with one 2-year renewal option''\<rparr>\<rparr>),
      (''NY'',
       \<lparr>state = ''New York'', state_abbrev = ''NY'',
        health_agency = ''New York State Department of Health'',
        agency_city = ''Albany'',
        provider_name = ''Empire State Medical Transport'',
        provider_city = ''Buffalo'',
        service_regions = [''Erie County'', ''Niagara County'', ''Monroe County''],
        contract_date = ''June 1, 2024'',
        provider_details =
          \<lparr>fleet_size = 85, operating_hours = ''24/7'', driver_count = 200,
           contract_term = ''3-year contract with one 1-year renewal option''\<rparr>\<rparr>),
      (''IL'',
       \<lparr>state = ''Illinois'', state_abbrev = ''IL'',
        health_agency = ''Illinois Department of Healthcare and Family Services'',
        agency_city = ''Springfield'',
        provider_name = ''Midwest Healthcare Transit'',
        provider_city = ''Chicago'',
        service_regions = [''Cook County'', ''DuPage County'', ''Lake County''],
        contract_date = ''July 15, 2024'',
        provider_details =
          \<lparr>fleet_size = 60, operating_hours = ''24/7'', driver_count = 145,
           contract_term = ''2-year contract with two 1-year renewal options''\<rparr>\<rparr>),
      (''PA'',
       \<lparr>state = ''Pennsylvania'', state_abbrev = ''PA'',
        health_agency = ''Pennsylvania Department of Human Services'',
        agency_city = ''Harrisburg'',
        provider_name = ''Keystone Medical Transit'',
        provider_city = ''Philadelphia'',
        service_regions = [''Philadelphia County'', ''Montgomery County'', ''Bucks County''],
        contract_date = ''August 1, 2024'',
        provider_details =
          \<lparr>fleet_size = 70, operating_hours = ''24/7'', driver_count = 165,
           contract_term = ''5-year contract with no renewal option''\<rparr>\<rparr>),
      (''OH'',
       \<lparr>state = ''Ohio'', state_abbrev = ''OH'',
        health_agency = ''Ohio Department of Medicaid'',
        agency_city = ''Columbus'',
        provider_name = ''Buckeye Medical Transport'',
        provider_city = ''Cleveland'',
        service_regions = [''Cuyahoga County'', ''Franklin County'', ''Hamilton County''],
        contract_date = ''September 15, 2024'',
        provider_details =
          \<lparr>fleet_size = 55, operating_hours = ''24/7'', driver_count = 130,
           contract_term = ''3-year contract with one 3-year renewal option''\<rparr>\<rparr>),
      (''MI'',
       \<lparr>state = ''Michigan'', state_abbrev = ''MI'',
        health_agency = ''Michigan Department of Health and Human Services'',
        agency_city = ''Lansing'',
        provider_name = ''Great Lakes Medical Transport'',
        provider_city = ''Detroit'',
        service_regions = [''Wayne County'', ''Oakland County'', ''Macomb County''],
        contract_date = ''October 1, 2024'',
        provider_details =
          \<lparr>fleet_size = 65, operating_hours = ''24/7'', driver_count = 155,
           contract_term = ''2-year contract with three 1-year renewal options''\<rparr>\<rparr>),
      (''GA'',
       \<lparr>state = ''Georgia'', state_abbrev = ''GA'',
        health_agency = ''Georgia Department of Community Health'',
        agency_city = ''Atlanta'',
        provider_name = ''Peach State Medical Transit'',
        provider_city = ''Savannah'',
        service_regions = [''Fulton County'', ''DeKalb County'', ''Cobb County''],
        contract_date = ''November 15, 2024'',
        provider_details =
          \<lparr>fleet_size = 45, operating_hours = ''24/7'', driver_count = 110,
           contract_term = ''4-year contract with two 1-year renewal options''\<rparr>\<rparr>),
      (''NC'',
       \<lparr>state = ''North Carolina'', state_abbrev = ''NC'',
        health_agency = ''North Carolina Department of Health and Human Services'',
        agency_city = ''Raleigh'',
        provider_name = ''Carolina Care Transit'',
        provider_city = ''Charlotte'',
        service_regions = [''Mecklenburg County'', ''Wake County'', ''Durham County''],
        contract_date = ''December 1, 2024'',
        provider_details =
          \<lparr>fleet_size = 40, operating_hours = ''24/7'', driver_count = 95,
           contract_term = ''1-year contract with four 1-year renewal options''\<rparr>\<rparr>),
      (''VA'',
       \<lparr>state = ''Virginia'', state_abbrev = ''VA'',
        health_agency = ''Virginia Department of Medical Assistance Services'',
        agency_city = ''Richmond'',
        provider_name = ''Commonwealth Medical Transport'',
        provider_city = ''Virginia Beach'',
        service_regions = [''Fairfax County'', ''Virginia Beach City'', ''Richmond City''],
        contract_date = ''January 15, 2025'',
        provider_details =
          \<lparr>fleet_size = 50, operating_hours = ''24/7'', driver_count = 120,
           contract_term = ''3-year contract with two 1-year renewal options''\<rparr>\<rparr>),
      (''WA'',
       \<lparr>state = ''Washington'', state_abbrev = ''WA'',
        health_agency = ''Washington State Health Care Authority'',
        agency_city = ''Olympia'',
        provider_name = ''Evergreen Medical Transport'',
        provider_city = ''Seattle'',
        service_regions = [''King County'', ''Pierce County'', ''Snohomish County''],
        contract_date = ''February 1, 2025'',
        provider_details =
          \<lparr>fleet_size = 45, operating_hours = ''24/7'', driver_count = 105,
           contract_term = ''2-year contract with two 2-year renewal options''\<rparr>\<rparr>),
      (''MA'',
       \<lparr>state = ''Massachusetts'', state_abbrev = ''MA'',
        health_agency = ''Massachusetts Department of Public Health'',
        agency_city = ''Boston'',
        provider_name = ''New England Medical Transport Services'',
        provider_city = ''Worcester'',
        service_regions = [''Suffolk County'', ''Middlesex County'', ''Essex County''],
        contract_date = ''March 1, 2025'',
        provider_details =
          \<lparr>fleet_size = 35, operating_hours = ''24/7'', driver_count = 85,
           contract_term = ''5-year contract with one 2-year renewal option''\<rparr>\<rparr>)]"

section \<open>Prompt builder\<close>

text \<open>
  Each method of \<open>StateContractGenerator\<close> builds its prompt with an f-string and
  passes it to the content service. An f-string is the concatenation of its literal
  pieces and of its formatted values; the pieces below are those of the source, one
  per line of the template, with the white space the source has.
\<close>

subsection \<open>The direct-PDF variant\<close>

definition create_contract_prompt_pdf :: "state_info \<Rightarrow> string" where
  "create_contract_prompt_pdf state_info =
     concat
      [''Generate a detailed contract between the '',
        health_agency state_info,
        '' (located in '',
        agency_city state_info,
        '', '',
        state state_info,
        '') \<newline>'',
        ''        and '',
        provider_name state_info,
        '' (a transportation provider headquartered in '',
        provider_city state_info,
        '', '',
        state state_info,
        ''). \<newline>'',
        ''\<newline>'',
        ''        Use these specific details:\<newline>'',
        ''        - Contract date: '',
        contract_date state_info,
        ''\<newline>'',
        ''        - Term: '',
        contract_term (provider_details state_info),
        ''\<newline>'',
        ''        - Service area: '',
        str_join '', '' (service_regions state_info),
        ''\<newline>'',
        ''        - Provider details: \<newline>'',
        ''            * Fleet size: '',
        str_int (fleet_size (provider_details state_info)),
        '' vehicles\<newline>'',
        ''            * Operating hours: '',
        operating_hours (provider_details state_info),
        ''\<newline>'',
        ''            * Number of certified drivers: '',
        str_int (driver_count (provider_details state_info)),
        ''\<newline>'',
        ''        \<newline>'',
        ''        The response should be in a format that can be parsed into sections, with clear headings marked by '#' symbols.\<newline>'',
        ''        Include standard contract sections but make all details specific to '',
        state state_info,
        '' and medical transportation.'']"

definition generate_rate_schedule_prompt_pdf :: "state_info \<Rightarrow> string" where
  "generate_rate_schedule_prompt_pdf state_info =
     concat
      [''Generate a detailed transportation rate schedule for '',
        health_agency state_info,
        '' contract with '',
        provider_name state_info,
        '' \<newline>'',
        ''        in '',
        state state_info,
        ''. The response should be in a format that can be converted to a table with the following columns:\<newline>'',
        ''        \<newline>'',
        ''        Service Type | Base Rate | Mileage Rate | Wait Time Rate | After Hours | Weekend/Holiday\<newline>'',
        ''        \<newline>'',
        ''        Include these service types:\<newline>'',
        ''        - Standard Vehicle Transport\<newline>'',
        ''        - Wheelchair Accessible Vehicle\<newline>'',
        ''        - Stretcher Transport\<newline>'',
        ''        - Bariatric Transport\<newline>'',
        ''        - Group Transport\<newline>'',
        ''        \<newline>'',
        ''        Consider '',
        state state_info,
        '''s:\<newline>'',
        ''        - Cost of living\<newline>'',
        ''        - Fuel costs\<newline>'',
        ''        - Urban vs rural rates\<newline>'',
        ''        - State regulations\<newline>'',
        ''        \<newline>'',
        ''        Make rates realistic for '',
        state state_info,
        '' market in 2024.\<newline>'',
        ''        Format the response as pipe-separated values for easy table creation.'']"

definition generate_service_areas_prompt_pdf :: "state_info \<Rightarrow> string" where
  "generate_service_areas_prompt_pdf state_info =
     concat
      [''Generate a detailed service area coverage table for '',
        provider_name state_info,
        '''s contract in '',
        state state_info,
        ''.\<newline>'',
        ''        The response should be in a format that can be converted to a table with the following columns:\<newline>'',
        ''\<newline>'',
        ''        Service Zone | Counties Covered | Response Time | Population Served | Facilities Covered | Special Conditions\<newline>'',
        ''\<newline>'',
        ''        Create entries for:\<newline>'',
        ''        - Primary urban zones\<newline>'',
        ''        - Suburban areas\<newline>'',
        ''        - Rural coverage\<newline>'',
        ''        - Special service areas\<newline>'',
        ''        \<newline>'',
        ''        Consider '',
        state state_info,
        '''s:\<newline>'',
        ''        - Geographic features\<newline>'',
        ''        - Population distribution\<newline>'',
        ''        - Healthcare facility locations\<newline>'',
        ''        - Emergency service requirements\<newline>'',
        ''\<newline>'',
        ''        Format the response as pipe-separated values for easy table creation.'']"

definition generate_performance_standards_prompt_pdf :: "state_info \<Rightarrow> string" where
  "generate_performance_standards_prompt_pdf state_info =
     concat
      [''Generate detailed performance standards for '',
        provider_name state_info,
        '''s contract in '',
        state state_info,
        ''.\<newline>'',
        ''        The response should be in a format that can be converted to a table with the following columns:\<newline>'',
        ''\<newline>'',
        ''        Performance Category | Standard | Measurement Method | Minimum Target | Penalty for Non-Compliance\<newline>'',
        ''\<newline>'',
        ''        Include standards for:\<newline>'',
        ''        - On-time performance\<newline>'',
        ''        - Vehicle maintenance\<newline>'',
        ''        - Driver qualifications\<newline>'',
        ''        - Customer service\<newline>'',
        ''        - Safety metrics\<newline>'',
        ''        - Complaint resolution\<newline>'',
        ''        \<newline>'',
        ''        Consider '',
        state state_info,
        '''s:\<newline>'',
        ''        - Healthcare regulations\<newline>'',
        ''        - Quality metrics\<newline>'',
        ''        - Reporting requirements\<newline>'',
        ''        \<newline>'',
        ''        Format the response as pipe-separated values for easy table creation.'']"

subsection \<open>The HTML variant\<close>

definition create_contract_prompt_html :: "state_info \<Rightarrow> string" where
  "create_contract_prompt_html state_info =
     concat
      [''Create a detailed transportation services contract between '',
        health_agency state_info,
        '' and '',
        provider_name state_info,
        ''.\<newline>'',
        ''        Format the response as HTML with proper sections and headings.\<newline>'',
        ''        \<newline>'',
        ''        Include these key details:\<newline>'',
        ''        - Contract date: '',
        contract_date state_info,
        ''\<newline>'',
        ''        - Agency location: '',
        agency_city state_info,
        '', '',
        state state_info,
        ''\<newline>'',
        ''        - Provider location: '',
        provider_city state_info,
        '', '',
        state state_info,
        ''\<newline>'',
        ''        - Term: '',
        contract_term (provider_details state_info),
        ''\<newline>'',
        ''        - Service areas: '',
        str_join '', '' (service_regions state_info),
        ''\<newline>'',
        ''        - Fleet size: '',
        str_int (fleet_size (provider_details state_info)),
        '' vehicles\<newline>'',
        ''        - Operating hours: '',
        operating_hours (provider_details state_info),
        ''\<newline>'',
        ''        - Driver count: '',
        str_int (driver_count (provider_details state_info)),
        ''\<newline>'',
        ''\<newline>'',
        ''        Include standard sections:\<newline>'',
        ''        1. Parties and Purpose\<newline>'',
        ''        2. Definitions\<newline>'',
        ''        3. Term and Renewal\<newline>'',
        ''        4. Scope of Services\<newline>'',
        ''        5. Provider Responsibilities\<newline>'',
        ''        6. Agency Responsibilities\<newline>'',
        ''        7. Compensation\<newline>'',
        ''        8. Compliance and Reporting\<newline>'',
        ''        9. Insurance and Liability\<newline>'',
        ''        10. Termination\<newline>'',
        ''        11. General Provisions\<newline>'',
        ''\<newline>'',
        ''        Format as clean HTML with proper headings and paragraphs.\<newline>'',
        ''        Make all details specific to '',
        state state_info,
        '' and medical transportation.'']"

definition generate_rate_schedule_prompt_html :: "state_info \<Rightarrow> string" where
  "generate_rate_schedule_prompt_html state_info =
     concat
      [''Create an HTML table showing transportation rates for '',
        provider_name state_info,
        '' in '',
        state state_info,
        ''.\<newline>'',
        ''        \<newline>'',
        ''        Include these service types:\<newline>'',
        ''        - Standard Vehicle Transport\<newline>'',
        ''        - Wheelchair Accessible Vehicle\<newline>'',
        ''        - Stretcher Transport\<newline>'',
        ''        - Bariatric Transport\<newline>'',
        ''        - Group Transport\<newline>'',
        ''\<newline>'',
        ''        Table columns:\<newline>'',
        ''        - Service Type\<newline>'',
        ''        - Base Rate\<newline>'',
        ''        - Mileage Rate\<newline>'',
        ''        - Wait Time Rate\<newline>'',
        ''        - After Hours Rate\<newline>'',
        ''        - Weekend/Holiday Rate\<newline>'',
        ''\<newline>'',
        ''        Return a properly formatted HTML table with realistic rates for '',
        state state_info,
        ''.\<newline>'',
        ''        Include <thead> and <tbody> tags, and proper styling classes.'']"

definition generate_service_areas_prompt_html :: "state_info \<Rightarrow> string" where
  "generate_service_areas_prompt_html state_info =
     concat
      [''Create an HTML table showing service area details for '',
        provider_name state_info,
        '' in '',
        state state_info,
        ''.\<newline>'',
        ''        \<newline>'',
        ''        Include these zones:\<newline>'',
        ''        - Primary Urban Areas\<newline>'',
        ''        - Suburban Regions\<newline>'',
        ''        - Rural Coverage\<newline>'',
        ''        - Special Service Areas\<newline>'',
        ''\<newline>'',
        ''        Table columns:\<newline>'',
        ''        - Service Zone\<newline>'',
        ''        - Counties Covered\<newline>'',
        ''        - Response Time\<newline>'',
        ''        - Population Served\<newline>'',
        ''        - Facilities Covered\<newline>'',
        ''        - Special Conditions\<newline>'',
        ''\<newline>'',
        ''        Return a properly formatted HTML table specific to '',
        state state_info,
        ''.\<newline>'',
        ''        Include <thead> and <tbody> tags, and proper styling classes.'']"

definition generate_performance_standards_prompt_html :: "state_info \<Rightarrow> string" where
  "generate_performance_standards_prompt_html state_info =
     concat
      [''Create an HTML table showing performance standards for '',
        provider_name state_info,
        '' in '',
        state state_info,
        ''.\<newline>'',
        ''        \<newline>'',
        ''        Include these categories:\<newline>'',
        ''        - On-time Performance\<newline>'',
        ''        - Vehicle Maintenance\<newline>'',
        ''        - Driver Qualifications\<newline>'',
        ''        - Safety Metrics\<newline>'',
        ''        - Complaint Resolution\<newline>'',
        ''\<newline>'',
        ''        Table columns:\<newline>'',
        ''        - Performance Category\<newline>'',
        ''        - Standard Description\<newline>'',
        ''        - Measurement Method\<newline>'',
        ''        - Minimum Target\<newline>'',
        ''        - Non-Compliance Penalty\<newline>'',
        ''\<newline>'',
        ''        Return a properly formatted HTML table with realistic standards.\<newline>'',
        ''        Include <thead> and <tbody> tags, and proper styling classes.'']"

section \<open>Structured-text parsing\<close>

subsection \<open>Markdown blocks (\<open>create_document\<close>, both variants)\<close>

text \<open>
  The loop over \<open>contract_content.split('\n')\<close> in both \<open>create_document\<close> methods
  does the same with each segment: a blank one is skipped; one that starts with the
  marker gets \<open>level = section.count('#')\<close> and \<open>text = section.strip('#').strip()\<close>;
  any other is kept as it is. \<open>document_block\<close> is that body; the two branches
  are the two constructors of \<open>block\<close>, and a paragraph has depth 0.
\<close>

datatype block = Heading nat string | Body string

fun depth :: "block \<Rightarrow> nat" where
  "depth (Heading level text) = level"
| "depth (Body text) = 0"

fun block_text :: "block \<Rightarrow> string" where
  "block_text (Heading level text) = text"
| "block_text (Body text) = text"

definition document_block :: "string \<Rightarrow> block option" where
  "document_block section =
     (if str_strip section \<noteq> [] then
        (if startswith ''#'' section then
           Some (Heading (str_count CHR ''#'' section) (str_strip (strip_chars ''#'' section)))
         else Some (Body section))
      else None)"

definition document_blocks :: "string \<Rightarrow> block list" where
  "document_blocks contract_content =
     List.map_filter document_block (str_split CHR ''\<newline>'' contract_content)"

text \<open>The length of the run of markers a segment starts with.\<close>

definition leading_run :: "string \<Rightarrow> nat" where
  "leading_run section = length (takeWhile (\<lambda>c. c = CHR ''#'') section)"

subsection \<open>Pipe tables (\<open>ContractPDF.create_table_from_data\<close>)\<close>

text \<open>
  \<^verbatim>\<open>rows = [row.strip().split('|') for row in data.strip().split('\n')]\<close>
  \<^verbatim>\<open>rows = [[cell.strip() for cell in row] for row in rows]\<close>
\<close>

definition table_rows :: "string \<Rightarrow> string list list" where
  "table_rows data =
     map (map str_strip)
       (map (\<lambda>row. str_split CHR ''|'' (str_strip row))
          (str_split CHR ''\<newline>'' (str_strip data)))"

text \<open>The parser as the specification words it: the stripped reply is split into
  lines, each line is split on the delimiter, every cell is trimmed.\<close>

definition table_rows_spec :: "string \<Rightarrow> string list list" where
  "table_rows_spec data =
     map (\<lambda>line. map str_strip (str_split CHR ''|'' line))
       (str_split CHR ''\<newline>'' (str_strip data))"

section \<open>Content service client\<close>

text \<open>
  What \<open>json.loads\<close> can return, and so what the client can hand to its caller:
  \<open>None\<close>, a truth value, a number, a string, a list or a dictionary with string
  keys (in the order of its keys). A float is kept as the real number it denotes.
\<close>

datatype pyval =
    PNone | PBool bool | PInt int | PFloat real | PStr string
  | PList "pyval list"
  | PDict "(string \<times> pyval) list"

text \<open>Python's truth value of an object, which \<open>all([...])\<close> tests.\<close>

fun truthy :: "pyval \<Rightarrow> bool" where
  "truthy PNone = False"
| "truthy (PBool b) = b"
| "truthy (PInt i) = (i \<noteq> 0)"
| "truthy (PFloat x) = (x \<noteq> 0)"
| "truthy (PStr s) = (s \<noteq> [])"
| "truthy (PList xs) = (xs \<noteq> [])"
| "truthy (PDict kvs) = (kvs \<noteq> [])"

text \<open>\<open>obj.get(key)\<close>: only a dictionary has the method; a missing key gives
  \<open>None\<close>.\<close>

fun py_get :: "pyval \<Rightarrow> string \<Rightarrow> exn + pyval" where
  "py_get (PDict kvs) key = Inr (case map_of kvs key of None \<Rightarrow> PNone | Some v \<Rightarrow> v)"
| "py_get PNone key = Inl AttributeError"
| "py_get (PBool b) key = Inl AttributeError"
| "py_get (PInt i) key = Inl AttributeError"
| "py_get (PFloat x) key = Inl AttributeError"
| "py_get (PStr s) key = Inl AttributeError"
| "py_get (PList xs) key = Inl AttributeError"

text \<open>\<open>obj[0]\<close>: the first element of a list or the first character of a string
  (\<open>IndexError\<close> when empty), \<open>KeyError\<close> on a dictionary (its keys are strings),
  \<open>TypeError\<close> on anything else.\<close>

fun py_first :: "pyval \<Rightarrow> exn + pyval" where
  "py_first (PList []) = Inl IndexError"
| "py_first (PList (x # xs)) = Inr x"
| "py_first (PStr []) = Inl IndexError"
| "py_first (PStr (c # cs)) = Inr (PStr [c])"
| "py_first (PDict kvs) = Inl KeyError"
| "py_first PNone = Inl TypeError"
| "py_first (PBool b) = Inl TypeError"
| "py_first (PInt i) = Inl TypeError"
| "py_first (PFloat x) = Inl TypeError"

text \<open>The methods of \<open>str\<close> the assemblers call on a reply (\<open>split\<close>, \<open>strip\<close>):
  no other value has them.\<close>

fun as_str :: "pyval \<Rightarrow> exn + string" where
  "as_str (PStr s) = Inr s"
| "as_str PNone = Inl AttributeError"
| "as_str (PBool b) = Inl AttributeError"
| "as_str (PInt i) = Inl AttributeError"
| "as_str (PFloat x) = Inl AttributeError"
| "as_str (PList xs) = Inl AttributeError"
| "as_str (PDict kvs) = Inl AttributeError"

text \<open>
  The hosted service, as the client sees it during one run:
  \<^item> \<open>client_raises\<close>: the exception \<open>boto3.client(...)\<close> raises, if it raises;
  \<^item> \<open>invoke_model\<close>: for a prompt, the bytes \<open>response.get("body").read()\<close> yields
    after \<open>invoke_model\<close>, or the exception one of the two raises (the model
    identifier, the content type and the other fields of the request are constants);
  \<^item> \<open>json_loads\<close>: \<open>json.loads\<close>.
\<close>

record bedrock =
  client_raises :: "exn option"
  invoke_model :: "string \<Rightarrow> exn + string"
  json_loads :: "string \<Rightarrow> exn + pyval"

text \<open>
  \<open>StateContractGenerator.generate_content_with_bedrock\<close>, the same in both variants.
  The client is made (and the request body built) before the \<open>try\<close>; the call, the
  decoding and \<open>response_body.get("content")[0].get("text")\<close> are inside it, and its
  handler returns \<open>None\<close>. \<open>Inl\<close> is an exception that leaves the method.
\<close>

definition generate_content_with_bedrock :: "bedrock \<Rightarrow> string \<Rightarrow> exn + pyval" where
  "generate_content_with_bedrock aws prompt =
     (case client_raises aws of
        Some e \<Rightarrow> Inl e
      | None \<Rightarrow>
          (case and_then (invoke_model aws prompt) (\<lambda>body.
                and_then (json_loads aws body) (\<lambda>response_body.
                and_then (py_get response_body ''content'') (\<lambda>content.
                and_then (py_first content) (\<lambda>first.
                  py_get first ''text''))))
           of Inl e \<Rightarrow> Inr PNone
            | Inr reply \<Rightarrow> Inr reply))"

text \<open>The four content kinds and the method of each, per variant.\<close>

datatype content_kind = Contract | Rates | Service_areas | Performance

fun prompt_pdf :: "content_kind \<Rightarrow> state_info \<Rightarrow> string" where
  "prompt_pdf Contract = create_contract_prompt_pdf"
| "prompt_pdf Rates = generate_rate_schedule_prompt_pdf"
| "prompt_pdf Service_areas = generate_service_areas_prompt_pdf"
| "prompt_pdf Performance = generate_performance_standards_prompt_pdf"

fun prompt_html :: "content_kind \<Rightarrow> state_info \<Rightarrow> string" where
  "prompt_html Contract = create_contract_prompt_html"
| "prompt_html Rates = generate_rate_schedule_prompt_html"
| "prompt_html Service_areas = generate_service_areas_prompt_html"
| "prompt_html Performance = generate_performance_standards_prompt_html"

definition content_pdf :: "bedrock \<Rightarrow> state_info \<Rightarrow> content_kind \<Rightarrow> exn + pyval" where
  "content_pdf aws state_info kind = generate_content_with_bedrock aws (prompt_pdf kind state_info)"

definition content_html :: "bedrock \<Rightarrow> state_info \<Rightarrow> content_kind \<Rightarrow> exn + pyval" where
  "content_html aws state_info kind = generate_content_with_bedrock aws (prompt_html kind state_info)"

text \<open>The four calls of \<open>process_state\<close>, one after the other: an exception that
  leaves one of them ends the sequence.\<close>

definition generate_all ::
  "(content_kind \<Rightarrow> exn + pyval) \<Rightarrow> exn + (pyval \<times> pyval \<times> pyval \<times> pyval)" where
  "generate_all content =
     and_then (content Contract) (\<lambda>contract_text.
     and_then (content Rates) (\<lambda>rate_schedule.
     and_then (content Service_areas) (\<lambda>service_areas.
     and_then (content Performance) (\<lambda>performance_standards.
       Inr (contract_text, rate_schedule, service_areas, performance_standards)))))"

section \<open>The files and the calls of a run\<close>

text \<open>
  The state a run changes: the files of the output directory (name to content) and
  the trace of the calls to the assembler, to the file system and to the renderer, in
  the order they were made.
\<close>

datatype event =
    Create_document string
  | Open_file string
  | Write_file string
  | From_file string "(string \<times> string) list"
  | From_string "(string \<times> string) list"

record world =
  files :: "string \<Rightarrow> string option"
  calls :: "event list"

definition called :: "event \<Rightarrow> world \<Rightarrow> world" where
  "called ev w = w\<lparr>calls := calls w @ [ev]\<rparr>"

definition stored :: "string \<Rightarrow> string \<Rightarrow> world \<Rightarrow> world" where
  "stored name content w = w\<lparr>files := (files w)(name \<mapsto> content)\<rparr>"

section \<open>Document assembler, direct-PDF variant (\<open>ContractPDF\<close>)\<close>

text \<open>
  The flowables of the story. A paragraph is its text and the name of its style; a
  table is its rows and its column widths.
\<close>

datatype flowable =
    Paragraph string string
  | PageBreak
  | TableOfContents
  | Table "string list list" "real list"
  | Spacer

text \<open>
  The layout library, as the assembler sees it during one run: the exception the
  constructor of a paragraph or of a table raises on its arguments, if it raises, and
  \<open>multiBuild\<close>, which lays the story out and gives the bytes of the file it writes,
  or raises.
\<close>

record reportlab =
  paragraph_raises :: "string \<Rightarrow> string \<Rightarrow> exn option"
  table_raises :: "string list list \<Rightarrow> real list \<Rightarrow> exn option"
  multiBuild :: "flowable list \<Rightarrow> exn + string"

text \<open>
  The names (and aliases) of the library's sample style sheet, which
  \<open>getSampleStyleSheet()\<close> returns: library data, not part of the repository. Its
  heading styles are \<open>Heading1\<close> to \<open>Heading6\<close>. \<open>styles[name]\<close> raises \<open>KeyError\<close>
  on any other name.
\<close>

definition sample_style_names :: "string list" where
  "sample_style_names =
     [''Normal'', ''BodyText'', ''Italic'', ''Heading1'', ''Heading2'', ''Heading3'', ''Title'',
      ''Heading4'', ''Heading5'', ''Heading6'', ''Bullet'', ''Definition'', ''Code'',
      ''UnorderedList'', ''OrderedList'',
      ''h1'', ''h2'', ''h3'', ''title'', ''h4'', ''h5'', ''h6'', ''bu'', ''df'', ''ul'', ''ol'']"

definition style_lookup :: "string \<Rightarrow> exn + string" where
  "style_lookup name = (if name \<in> set sample_style_names then Inr name else Inl KeyError)"

definition make_paragraph :: "reportlab \<Rightarrow> string \<Rightarrow> string \<Rightarrow> exn + flowable" where
  "make_paragraph rl txt style =
     (case paragraph_raises rl txt style of
        Some e \<Rightarrow> Inl e
      | None \<Rightarrow> Inr (Paragraph txt style))"

subsection \<open>\<open>create_table_from_data\<close>\<close>

text \<open>
  \<^verbatim>\<open>max(len(str(row[col_idx])) for row in rows)\<close>: the lengths are computed row by
  row, and \<open>row[col_idx]\<close> raises \<open>IndexError\<close> on a row that has no such column.
\<close>

fun cell_lengths :: "nat \<Rightarrow> string list list \<Rightarrow> exn + nat list" where
  "cell_lengths col_idx [] = Inr []"
| "cell_lengths col_idx (row # rows) =
     (if col_idx < length row then
        and_then (cell_lengths col_idx rows) (\<lambda>ls. Inr (length (row ! col_idx) # ls))
      else Inl IndexError)"

definition py_max :: "nat list \<Rightarrow> exn + nat" where
  "py_max ls = (case ls of [] \<Rightarrow> Inl ValueError | l # ls' \<Rightarrow> Inr (fold max ls' l))"

text \<open>
  \<^verbatim>\<open>min(max_width * 0.1 * inch, self.doc.width/len(rows[0]))\<close>, on real numbers
  (the rounding of the floating-point operations is left out). \<open>inch\<close> is 72 points;
  the width of the frame is that of a letter page, 612 points, less the two margins
  of 72.
\<close>

definition inch :: real where
  "inch = 72"

definition doc_width :: real where
  "doc_width = 612 - 72 - 72"

definition col_width :: "nat \<Rightarrow> nat \<Rightarrow> real" where
  "col_width max_width ncols = min (real max_width * (1 / 10) * inch) (doc_width / real ncols)"

fun col_widths_loop :: "nat list \<Rightarrow> string list list \<Rightarrow> nat \<Rightarrow> exn + real list" where
  "col_widths_loop [] rows ncols = Inr []"
| "col_widths_loop (col_idx # rest) rows ncols =
     and_then (cell_lengths col_idx rows) (\<lambda>ls.
     and_then (py_max ls) (\<lambda>max_width.
     and_then (col_widths_loop rest rows ncols) (\<lambda>ws.
       Inr (col_width max_width ncols # ws))))"

text \<open>The loop \<open>for col_idx in range(len(rows[0]))\<close>.\<close>

definition column_widths :: "string list list \<Rightarrow> exn + real list" where
  "column_widths rows =
     (case rows of
        [] \<Rightarrow> Inl IndexError
      | header # _ \<Rightarrow> col_widths_loop [0 ..< length header] rows (length header))"

definition create_table_from_data :: "reportlab \<Rightarrow> pyval \<Rightarrow> string \<Rightarrow> exn + flowable list" where
  "create_table_from_data rl data table_title =
     and_then (as_str data) (\<lambda>reply.
     and_then (column_widths (table_rows reply)) (\<lambda>col_widths.
     and_then (case table_raises rl (table_rows reply) col_widths of
                 Some e \<Rightarrow> Inl e
               | None \<Rightarrow> Inr (Table (table_rows reply) col_widths)) (\<lambda>table.
     and_then (make_paragraph rl (''<b>'' @ table_title @ ''</b>'') ''TableTitle'') (\<lambda>title.
       Inr [title, table, Spacer]))))"

subsection \<open>\<open>create_document\<close>\<close>

fun block_paragraph :: "reportlab \<Rightarrow> block \<Rightarrow> exn + flowable" where
  "block_paragraph rl (Heading level txt) =
     and_then (style_lookup (''Heading'' @ str_nat level)) (make_paragraph rl txt)"
| "block_paragraph rl (Body section) =
     and_then (style_lookup ''Normal'') (make_paragraph rl section)"

text \<open>The loop over the segments of the contract body: the paragraph of a segment is
  made (or its making raises) before the next segment is looked at.\<close>

fun story_body :: "reportlab \<Rightarrow> string list \<Rightarrow> exn + flowable list" where
  "story_body rl [] = Inr []"
| "story_body rl (section # rest) =
     (case document_block section of
        None \<Rightarrow> story_body rl rest
      | Some b \<Rightarrow>
          and_then (block_paragraph rl b) (\<lambda>p.
          and_then (story_body rl rest) (\<lambda>ps. Inr (p # ps))))"

text \<open>The story \<open>create_document\<close> builds, in the order of the source.\<close>

definition story_of ::
  "reportlab \<Rightarrow> string \<Rightarrow> pyval \<Rightarrow> pyval \<Rightarrow> pyval \<Rightarrow> pyval \<Rightarrow> exn + flowable list" where
  "story_of rl title contract_content rate_schedule service_areas performance_standards =
     and_then (style_lookup ''Heading1'') (\<lambda>parent.
     and_then (make_paragraph rl title ''CustomTitle'') (\<lambda>title_page.
     and_then (style_lookup ''Heading1'') (\<lambda>h1.
     and_then (make_paragraph rl ''Table of Contents'' h1) (\<lambda>toc_heading.
     and_then (as_str contract_content) (\<lambda>content.
     and_then (story_body rl (str_split CHR ''\<newline>'' content)) (\<lambda>body.
     and_then (style_lookup ''Heading1'') (\<lambda>h1'.
     and_then (make_paragraph rl ''Attachments'' h1') (\<lambda>attachments.
     and_then (create_table_from_data rl rate_schedule ''Attachment A: Rate Schedule'') (\<lambda>a.
     and_then (create_table_from_data rl service_areas ''Attachment B: Service Areas'') (\<lambda>b.
     and_then (create_table_from_data rl performance_standards
                 ''Attachment C: Performance Standards'') (\<lambda>c.
       Inr ([title_page, PageBreak, toc_heading, TableOfContents, PageBreak]
            @ body @ [attachments] @ a @ b @ c))))))))))))"

text \<open>\<open>ContractPDF.create_document\<close>: the story, then \<open>self.doc.multiBuild(self.story)\<close>.
  The result is the content of the PDF file.\<close>

definition create_document_pdf ::
  "reportlab \<Rightarrow> string \<Rightarrow> pyval \<Rightarrow> pyval \<Rightarrow> pyval \<Rightarrow> pyval \<Rightarrow> exn + string" where
  "create_document_pdf rl title contract_content rate_schedule service_areas performance_standards =
     and_then (story_of rl title contract_content rate_schedule service_areas performance_standards)
       (multiBuild rl)"

subsection \<open>\<open>process_state\<close>\<close>

text \<open>\<open>date_str\<close> is \<open>datetime.now().strftime("%Y%m%d")\<close>.\<close>

definition generate_filename_pdf :: "string \<Rightarrow> string \<Rightarrow> state_info \<Rightarrow> string" where
  "generate_filename_pdf base_name date_str state_info =
     concat [base_name, ''_'', state_abbrev state_info, ''_'', date_str, ''.pdf'']"

definition contract_title :: "state_info \<Rightarrow> string" where
  "contract_title state_info = ''Transportation Services Contract - '' @ state state_info"

text \<open>
  \<open>process_state\<close> of the direct-PDF variant. Its whole body is inside a \<open>try\<close>
  whose handler returns \<open>False\<close>. The file is written by \<open>multiBuild\<close>, when it
  returns. The result is the truth value returned and the state after the call.
\<close>

definition process_state_pdf ::
  "bedrock \<Rightarrow> reportlab \<Rightarrow> string \<Rightarrow> world \<Rightarrow> state_info \<Rightarrow> bool \<times> world" where
  "process_state_pdf aws rl date_str w state_info =
     (case generate_all (content_pdf aws state_info) of
        Inl e \<Rightarrow> (False, w)
      | Inr (contract_text, rate_schedule, service_areas, performance_standards) \<Rightarrow>
          if list_all truthy [contract_text, rate_schedule, service_areas, performance_standards]
          then
            (let filename = generate_filename_pdf ''Transportation_Contract'' date_str state_info;
                 w1 = called (Create_document (contract_title state_info)) w
             in case create_document_pdf rl (contract_title state_info)
                       contract_text rate_schedule service_areas performance_standards of
                  Inl e \<Rightarrow> (False, w1)
                | Inr pdf \<Rightarrow> (True, called (Write_file filename) (stored filename pdf w1)))
          else (False, w))"

section \<open>Document assembler, HTML variant (\<open>ContractHTML\<close>)\<close>

text \<open>
  The tools of the HTML variant, as \<open>process_state\<close> sees them during one run:
  \<^item> \<open>render\<close>: \<open>Template(self.html_template).render(...)\<close> on the title, the date,
    the contract body and the three table replies, or the exception it raises;
  \<^item> \<open>open_raises\<close>, \<open>write_raises\<close>: the exception \<open>open(name, 'w')\<close> and
    \<open>f.write(content)\<close> raise, if they raise;
  \<^item> \<open>configuration_raises\<close>: the exception \<open>pdfkit.configuration()\<close> raises, if it
    raises;
  \<^item> \<open>from_file\<close>: \<open>pdfkit.from_file\<close> on the name of the input file, its
    content on the disk and the options; \<open>from_string\<close>: \<open>pdfkit.from_string\<close> on
    the document and the options. Each gives the content of the PDF file it writes,
    or the exception it raises.
\<close>

record html_tools =
  render :: "string \<Rightarrow> string \<Rightarrow> string \<Rightarrow> pyval \<Rightarrow> pyval \<Rightarrow> pyval \<Rightarrow> exn + string"
  open_raises :: "string \<Rightarrow> exn option"
  write_raises :: "string \<Rightarrow> string \<Rightarrow> exn option"
  configuration_raises :: "exn option"
  from_file :: "string \<Rightarrow> string option \<Rightarrow> (string \<times> string) list \<Rightarrow> exn + string"
  from_string :: "string \<Rightarrow> (string \<times> string) list \<Rightarrow> exn + string"

subsection \<open>\<open>create_document\<close>\<close>

fun block_html :: "block \<Rightarrow> string" where
  "block_html (Heading level txt) =
     concat [''<h'', str_nat level, ''>'', txt, ''</h'', str_nat level, ''>'']"
| "block_html (Body line) = concat [''<p>'', line, ''</p>'']"

text \<open>\<open>date\<close> is \<open>datetime.now().strftime('%B %d, %Y')\<close>.\<close>

definition create_document_html ::
  "html_tools \<Rightarrow> string \<Rightarrow> string \<Rightarrow> pyval \<Rightarrow> pyval \<Rightarrow> pyval \<Rightarrow> pyval \<Rightarrow> exn + string" where
  "create_document_html tools title date contract_content rate_schedule service_areas
       performance_standards =
     and_then (as_str contract_content) (\<lambda>content.
       render tools title date
         (str_join ''\<newline>'' (map block_html (document_blocks content)))
         rate_schedule service_areas performance_standards)"

subsection \<open>\<open>process_state\<close>\<close>

definition generate_filename_html :: "string \<Rightarrow> string \<Rightarrow> state_info \<Rightarrow> string" where
  "generate_filename_html base_name date_str state_info =
     concat [base_name, ''_'', state_abbrev state_info, ''_'', date_str]"

definition options :: "state_info \<Rightarrow> string \<Rightarrow> (string \<times> string) list" where
  "options state_info date =
     [(''page-size'', ''Letter''),
      (''margin-top'', ''25mm''),
      (''margin-right'', ''25mm''),
      (''margin-bottom'', ''25mm''),
      (''margin-left'', ''25mm''),
      (''encoding'', ''UTF-8''),
      (''enable-local-file-access'', ''''),
      (''footer-right'', ''[page] of [topage]''),
      (''footer-font-size'', ''9''),
      (''header-font-size'', ''9''),
      (''header-left'', ''Transportation Services Contract - '' @ state state_info),
      (''header-right'', date),
      (''header-line'', ''''),
      (''footer-line'', ''''),
      (''footer-left'', ''Confidential and Proprietary''),
      (''quiet'', '''')]"

definition simple_options :: "(string \<times> string) list" where
  "simple_options =
     [(''page-size'', ''Letter''),
      (''encoding'', ''UTF-8''),
      (''enable-local-file-access'', ''''),
      (''quiet'', '''')]"

text \<open>
  The three nested \<open>try\<close> blocks: from the file with the full options; on an
  exception, from the string with the same options; on an exception, from the file
  with the simple options; on an exception, an exception of the code's own is raised.
  The result is the content of the PDF file, or that last exception, and the state
  with the calls made.
\<close>

definition convert_to_pdf ::
  "html_tools \<Rightarrow> string \<Rightarrow> string \<Rightarrow> (string \<times> string) list \<Rightarrow> world \<Rightarrow> (exn + string) \<times> world" where
  "convert_to_pdf tools html_filename html_content opts w =
     (let w1 = called (From_file html_filename opts) w
      in case from_file tools html_filename (files w html_filename) opts of
           Inr pdf \<Rightarrow> (Inr pdf, w1)
         | Inl e1 \<Rightarrow>
             (let w2 = called (From_string opts) w1
              in case from_string tools html_content opts of
                   Inr pdf \<Rightarrow> (Inr pdf, w2)
                 | Inl e2 \<Rightarrow>
                     (let w3 = called (From_file html_filename simple_options) w2
                      in case from_file tools html_filename (files w html_filename)
                                simple_options of
                           Inr pdf \<Rightarrow> (Inr pdf, w3)
                         | Inl e3 \<Rightarrow> (Inl (All_methods_failed e3), w3))))"

text \<open>
  The part of \<open>process_state\<close> after the HTML file is saved: inside a \<open>try\<close> of its
  own, the renderer is configured and the conversion attempted; its handler (which
  only prints, and looks for the renderer's version inside a further \<open>try\<close>) returns
  \<open>False\<close>.
\<close>

definition pdf_step ::
  "html_tools \<Rightarrow> state_info \<Rightarrow> string \<Rightarrow> string \<Rightarrow> string \<Rightarrow> string \<Rightarrow> world \<Rightarrow> bool \<times> world" where
  "pdf_step tools state_info date html_filename html_content pdf_filename w =
     (case configuration_raises tools of
        Some e \<Rightarrow> (False, w)
      | None \<Rightarrow>
          (case convert_to_pdf tools html_filename html_content (options state_info date) w of
             (Inl e, w') \<Rightarrow> (False, w')
           | (Inr pdf, w') \<Rightarrow> (True, stored pdf_filename pdf w')))"

text \<open>
  \<open>process_state\<close> of the HTML variant. \<open>open(html_filename, 'w')\<close> creates the file
  empty (or empties it), \<open>f.write\<close> gives it its content; an exception of either is
  handled by the outer \<open>try\<close>, which returns \<open>False\<close>.
\<close>

definition process_state_html ::
  "bedrock \<Rightarrow> html_tools \<Rightarrow> string \<Rightarrow> string \<Rightarrow> world \<Rightarrow> state_info \<Rightarrow> bool \<times> world" where
  "process_state_html aws tools date_str date w state_info =
     (case generate_all (content_html aws state_info) of
        Inl e \<Rightarrow> (False, w)
      | Inr (contract_text, rate_schedule, service_areas, performance_standards) \<Rightarrow>
          if list_all truthy [contract_text, rate_schedule, service_areas, performance_standards]
          then
            (let base_filename =
                   generate_filename_html ''Transportation_Contract'' date_str state_info;
                 html_filename = base_filename @ ''.html'';
                 pdf_filename = base_filename @ ''.pdf'';
                 w1 = called (Create_document (contract_title state_info)) w
             in case create_document_html tools (contract_title state_info) date
                       contract_text rate_schedule service_areas performance_standards of
                  Inl e \<Rightarrow> (False, w1)
                | Inr html_content \<Rightarrow>
                    (case open_raises tools html_filename of
                       Some e \<Rightarrow> (False, w1)
                     | None \<Rightarrow>
                         (let w2 = called (Open_file html_filename) (stored html_filename [] w1)
                          in case write_raises tools html_filename html_content of
                               Some e \<Rightarrow> (False, w2)
                             | None \<Rightarrow>
                                 pdf_step tools state_info date html_filename html_content
                                   pdf_filename
                                   (called (Write_file html_filename)
                                      (stored html_filename html_content w2)))))
          else (False, w))"

section \<open>Batch driver (\<open>main\<close>)\<close>

text \<open>
  The loop of \<open>main\<close> over \<open>state_configs.items()\<close>, for any per-record function:
  \<open>successful_states\<close> and \<open>failed_states\<close> are the two accumulators, and the state
  of the run is passed from one record to the next.
\<close>

fun main_loop ::
  "('w \<Rightarrow> state_info \<Rightarrow> bool \<times> 'w) \<Rightarrow> (string \<times> state_info) list \<Rightarrow> 'w \<Rightarrow> nat \<Rightarrow> string list
     \<Rightarrow> (nat \<times> string list) \<times> 'w" where
  "main_loop process [] w successful_states failed_states =
     ((successful_states, failed_states), w)"
| "main_loop process ((state_code, state_info) # rest) w successful_states failed_states =
     (case process w state_info of
        (True, w') \<Rightarrow> main_loop process rest w' (Suc successful_states) failed_states
      | (False, w') \<Rightarrow> main_loop process rest w' successful_states (failed_states @ [state_code]))"

text \<open>The two lines of the summary both variants print from the accumulators: the
  second only when a record failed.\<close>

definition summary_pdf :: "nat \<times> string list \<Rightarrow> string list" where
  "summary_pdf r =
     (case r of (successful_states, failed_states) \<Rightarrow>
        [concat [''Successfully generated: '', str_nat successful_states, '' contracts'']]
        @ (if failed_states \<noteq> [] then [''Failed states: '' @ str_join '', '' failed_states]
           else []))"

definition summary_html :: "nat \<times> string list \<Rightarrow> string list" where
  "summary_html r =
     (case r of (successful_states, failed_states) \<Rightarrow>
        [concat [''Successfully generated: '', str_nat successful_states, '' contracts''],
         ''Failed states: '' @ str_nat (length failed_states)]
        @ (if failed_states \<noteq> [] then [''Failed state codes: '' @ str_join '', '' failed_states]
           else []))"

definition main_pdf :: "bedrock \<Rightarrow> reportlab \<Rightarrow> string \<Rightarrow> world \<Rightarrow> (nat \<times> string list) \<times> world" where
  "main_pdf aws rl date_str w = main_loop (process_state_pdf aws rl date_str) state_configs w 0 []"

definition main_html ::
  "bedrock \<Rightarrow> html_tools \<Rightarrow> string \<Rightarrow> string \<Rightarrow> world \<Rightarrow> (nat \<times> string list) \<times> world" where
  "main_html aws tools date_str date w =
     main_loop (process_state_html aws tools date_str date) state_configs w 0 []"

text \<open>The outcome of each record of a batch, in the order of the batch.\<close>

fun outcomes ::
  "('w \<Rightarrow> state_info \<Rightarrow> bool \<times> 'w) \<Rightarrow> (string \<times> state_info) list \<Rightarrow> 'w \<Rightarrow> bool list" where
  "outcomes process [] w = []"
| "outcomes process ((state_code, state_info) # rest) w =
     (case process w state_info of (ok, w') \<Rightarrow> ok # outcomes process rest w')"

definition failed_codes :: "(string \<times> state_info) list \<Rightarrow> bool list \<Rightarrow> string list" where
  "failed_codes batch oks = map (fst \<circ> fst) (filter (\<lambda>(entry, ok). \<not> ok) (zip batch oks))"

section \<open>The fields a prompt template refers to\<close>

text \<open>
  The formatted values of each template, in the order of their first occurrence: the
  expressions between braces in the f-string of the method.
\<close>

fun referenced_pdf :: "content_kind \<Rightarrow> state_info \<Rightarrow> string list" where
  "referenced_pdf Contract si =
     [health_agency si, agency_city si, state si, provider_name si, provider_city si,
      contract_date si, contract_term (provider_details si),
      str_join '', '' (service_regions si),
      str_int (fleet_size (provider_details si)),
      operating_hours (provider_details si),
      str_int (driver_count (provider_details si))]"
| "referenced_pdf Rates si = [health_agency si, provider_name si, state si]"
| "referenced_pdf Service_areas si = [provider_name si, state si]"
| "referenced_pdf Performance si = [provider_name si, state si]"

fun referenced_html :: "content_kind \<Rightarrow> state_info \<Rightarrow> string list" where
  "referenced_html Contract si =
     [health_agency si, provider_name si, contract_date si, agency_city si, state si,
      provider_city si, contract_term (provider_details si),
      str_join '', '' (service_regions si),
      str_int (fleet_size (provider_details si)),
      operating_hours (provider_details si),
      str_int (driver_count (provider_details si))]"
| "referenced_html Rates si = [provider_name si, state si]"
| "referenced_html Service_areas si = [provider_name si, state si]"
| "referenced_html Performance si = [provider_name si, state si]"

section \<open>Sample collaborators\<close>

text \<open>A layout library that raises on nothing and writes a file of four bytes.\<close>

definition lenient_reportlab :: reportlab where
  "lenient_reportlab =
     \<lparr>paragraph_raises = (\<lambda>txt style. None),
      table_raises = (\<lambda>rows col_widths. None),
      multiBuild = (\<lambda>story. Inr ''%PDF'')\<rparr>"

text \<open>A content service whose every call fails inside the client's \<open>try\<close>, and one
  that answers every prompt with the same text.\<close>

definition failing_bedrock :: bedrock where
  "failing_bedrock =
     \<lparr>client_raises = None,
      invoke_model = (\<lambda>prompt. Inl (LibraryError ''timeout'')),
      json_loads = (\<lambda>body. Inl ValueError)\<rparr>"

definition echo_bedrock :: "string \<Rightarrow> bedrock" where
  "echo_bedrock reply =
     \<lparr>client_raises = None,
      invoke_model = (\<lambda>prompt. Inr reply),
      json_loads = (\<lambda>body. Inr (PDict [(''content'', PList [PDict [(''text'', PStr body)]])]))\<rparr>"

text \<open>The first record of the table, and the state of a run that has done nothing.\<close>

definition florida :: state_info where
  "florida =
     \<lparr>state = ''Florida'', state_abbrev = ''FL'',
      health_agency = ''Florida Department of Health'',
      agency_city = ''Tallahassee'',
      provider_name = ''SafeRide Transit Solutions'',
      provider_city = ''Orlando'',
      service_regions = [''Orange County'', ''Seminole County'', ''Osceola County''],
      contract_date = ''March 15, 2024'',
      provider_details =
        \<lparr>fleet_size = 50, operating_hours = ''24/7'', driver_count = 120,
         contract_term = ''2-year contract with 1-year renewal option''\<rparr>\<rparr>"

definition fresh :: world where
  "fresh = \<lparr>files = Map.empty, calls = []\<rparr>"

text \<open>HTML tools that raise on nothing; the renderer's strategies succeed or fail as
  the three arguments say (from the file with the full options, from the string, from
  the file with the simple options).\<close>

definition sample_tools :: "bool \<Rightarrow> bool \<Rightarrow> bool \<Rightarrow> html_tools" where
  "sample_tools first second third =
     \<lparr>render = (\<lambda>title date contract_content rate_schedule service_areas performance_standards.
         Inr (''<html>'' @ contract_content @ ''</html>'')),
      open_raises = (\<lambda>name. None),
      write_raises = (\<lambda>name content. None),
      configuration_raises = None,
      from_file = (\<lambda>name content opts.
         if (if opts = simple_options then third else first) then Inr ''%PDF''
         else Inl (LibraryError ''wkhtmltopdf'')),
      from_string = (\<lambda>html opts.
         if second then Inr ''%PDF'' else Inl (LibraryError ''wkhtmltopdf''))\<rparr>"


text \<open>A per-record function that fails on the records whose abbreviation is listed,
  and leaves the state of the run as it is.\<close>

definition failing_for :: "string list \<Rightarrow> 'w \<Rightarrow> state_info \<Rightarrow> bool \<times> 'w" where
  "failing_for codes w state_info = (state_abbrev state_info \<notin> set codes, w)"

text \<open>The reply is \<open>None\<close> or the empty string.\<close>

definition missing :: "pyval \<Rightarrow> bool" where
  "missing v = (v = PNone \<or> v = PStr [])"


text \<open>
  The fallback as the specification words it: strategies tried in their order,
  stopping at the first that succeeds. A strategy is the call it makes and the outcome
  of that call; the result is the calls made and whether one succeeded.
\<close>

fun try_in_order :: "(event \<times> (exn + string)) list \<Rightarrow> event list \<times> bool" where
  "try_in_order [] = ([], False)"
| "try_in_order ((call, Inr pdf) # rest) = ([call], True)"
| "try_in_order ((call, Inl e) # rest) =
     (case try_in_order rest of (made, ok) \<Rightarrow> (call # made, ok))"


section \<open>Facts about the string operations\<close>

lemma and_then_Inr [simp]: "and_then (Inr x) f = f x"
  by (simp add: and_then_def)

lemma and_then_Inl [simp]: "and_then (Inl e) f = Inl e"
  by (simp add: and_then_def)

declare str_nat.simps [simp del]

lemma str_split_not_Nil: "str_split c s \<noteq> []"
  by (induction s) (auto split: list.splits)

lemma length_str_split: "length (str_split c s) = Suc (count_list s c)"
  by (induction s) (auto split: list.splits simp: str_split_not_Nil)

lemma str_split_snoc:
  "x \<noteq> c \<Longrightarrow> str_split c (s @ [x]) = butlast (str_split c s) @ [last (str_split c s) @ [x]]"
  by (induction s) (auto split: list.splits simp: str_split_not_Nil)

lemma strip_by_Cons: "p x \<Longrightarrow> strip_by p (x # s) = strip_by p s"
  by (simp add: strip_by_def)

lemma strip_by_snoc: "p x \<Longrightarrow> strip_by p (s @ [x]) = strip_by p s"
proof (cases "\<forall>y \<in> set s. p y")
  case True
  assume px: "p x"
  from True have a: "dropWhile p s = []" by simp
  from True px have b: "dropWhile p (s @ [x]) = []" by simp
  show ?thesis unfolding strip_by_def a b by simp
next
  case False
  assume px: "p x"
  from False obtain y where "y \<in> set s" "\<not> p y" by blast
  then have "dropWhile p (s @ [x]) = dropWhile p s @ [x]"
    by (rule dropWhile_append1)
  with px show ?thesis by (simp add: strip_by_def)
qed

lemma split_lstrip:
  "\<not> p c \<Longrightarrow> map (strip_by p) (str_split c (dropWhile p s)) = map (strip_by p) (str_split c s)"
proof (induction s)
  case Nil
  then show ?case by simp
next
  case (Cons x s)
  show ?case
  proof (cases "p x")
    case True
    with Cons.prems have "x \<noteq> c" by auto
    obtain w ws where ws: "str_split c s = w # ws"
      using str_split_not_Nil [of c s] by (cases "str_split c s") auto
    from True \<open>x \<noteq> c\<close> ws Cons.IH [OF Cons.prems] show ?thesis
      by (simp add: strip_by_Cons)
  next
    case False
    then show ?thesis by simp
  qed
qed

lemma split_rstrip:
  "\<not> p c \<Longrightarrow>
     map (strip_by p) (str_split c (rev (dropWhile p (rev s)))) = map (strip_by p) (str_split c s)"
proof (induction s rule: rev_induct)
  case Nil
  then show ?case by simp
next
  case (snoc x s)
  show ?case
  proof (cases "p x")
    case True
    with snoc.prems have xc: "x \<noteq> c" by auto
    have ne: "str_split c s \<noteq> []" by (rule str_split_not_Nil)
    have "map (strip_by p) (str_split c (s @ [x]))
            = map (strip_by p) (butlast (str_split c s) @ [last (str_split c s)])"
      using True by (simp add: str_split_snoc [OF xc] strip_by_snoc)
    also have "\<dots> = map (strip_by p) (str_split c s)"
      using ne by simp
    finally show ?thesis
      using True snoc.IH [OF snoc.prems] by simp
  next
    case False
    then show ?thesis by simp
  qed
qed

lemma split_strip_by:
  "\<not> p c \<Longrightarrow> map (strip_by p) (str_split c (strip_by p s)) = map (strip_by p) (str_split c s)"
  using split_rstrip [of p c "dropWhile p s"] split_lstrip [of p c s]
  by (simp add: strip_by_def)

lemma not_space_bar: "\<not> is_space CHR ''|''"
  by (simp add: is_space_def)

lemma str_strip_eq: "str_strip = strip_by is_space"
  by (rule ext) (simp add: str_strip_def)

lemma table_rows_refines: "table_rows data = table_rows_spec data"
  using split_strip_by [of is_space "CHR ''|''"] not_space_bar
  by (simp add: table_rows_def table_rows_spec_def str_strip_eq comp_def)

lemma count_list_dropWhile: "\<not> p c \<Longrightarrow> count_list (dropWhile p s) c = count_list s c"
  by (induction s) auto

lemma count_list_rev': "count_list (rev s) c = count_list s c"
  by (induction s) auto

lemma count_list_strip_by: "\<not> p c \<Longrightarrow> count_list (strip_by p s) c = count_list s c"
  by (simp add: strip_by_def count_list_rev' count_list_dropWhile)

section \<open>Pipe tables\<close>

lemma map_length_table_rows:
  "map length (table_rows data)
     = map (\<lambda>line. Suc (str_count CHR ''|'' line)) (str_split CHR ''\<newline>'' (str_strip data))"
  using count_list_strip_by [of is_space "CHR ''|''"] not_space_bar
  by (simp add: table_rows_def str_strip_eq comp_def length_str_split str_count_def)

lemma table_rows_not_Nil: "table_rows data \<noteq> []"
  by (simp add: table_rows_def str_split_not_Nil)

lemma cell_lengths_Inr:
  "list_all (\<lambda>row. j < length row) rows \<Longrightarrow>
     cell_lengths j rows = Inr (map (\<lambda>row. length (row ! j)) rows)"
  by (induction rows) (auto simp: and_then_def)

lemma cell_lengths_Inl:
  "\<not> list_all (\<lambda>row. j < length row) rows \<Longrightarrow> cell_lengths j rows = Inl IndexError"
  by (induction rows) (auto simp: and_then_def cell_lengths_Inr)

lemma py_max_Inr: "ls \<noteq> [] \<Longrightarrow> \<exists>m. py_max ls = Inr m"
  by (cases ls) (auto simp: py_max_def)

lemma col_widths_loop_Inr:
  "rows \<noteq> [] \<Longrightarrow> list_all (\<lambda>j. list_all (\<lambda>row. j < length row) rows) idxs \<Longrightarrow>
     \<exists>ws. col_widths_loop idxs rows n = Inr ws \<and> length ws = length idxs"
proof (induction idxs)
  case Nil
  then show ?case by simp
next
  case (Cons j idxs)
  from Cons.prems have ok: "list_all (\<lambda>row. j < length row) rows" by simp
  from Cons.prems obtain m where m: "py_max (map (\<lambda>row. length (row ! j)) rows) = Inr m"
    using py_max_Inr [of "map (\<lambda>row. length (row ! j)) rows"] by auto
  from Cons obtain ws where "col_widths_loop idxs rows n = Inr ws" "length ws = length idxs"
    by auto
  with ok m show ?case
    by (simp add: cell_lengths_Inr and_then_def)
qed

lemma col_widths_loop_Inl:
  "rows \<noteq> [] \<Longrightarrow> \<not> list_all (\<lambda>j. list_all (\<lambda>row. j < length row) rows) idxs \<Longrightarrow>
     col_widths_loop idxs rows n = Inl IndexError"
proof (induction idxs)
  case Nil
  then show ?case by simp
next
  case (Cons j idxs)
  show ?case
  proof (cases "list_all (\<lambda>row. j < length row) rows")
    case True
    from Cons.prems(1) obtain m where m: "py_max (map (\<lambda>row. length (row ! j)) rows) = Inr m"
      using py_max_Inr [of "map (\<lambda>row. length (row ! j)) rows"] by auto
    from True Cons.prems have "\<not> list_all (\<lambda>j. list_all (\<lambda>row. j < length row) rows) idxs"
      by simp
    with Cons.IH Cons.prems(1) have "col_widths_loop idxs rows n = Inl IndexError" by simp
    with True m show ?thesis by (simp add: cell_lengths_Inr and_then_def)
  next
    case False
    then show ?thesis by (simp add: cell_lengths_Inl and_then_def)
  qed
qed

lemma all_columns_iff:
  "list_all (\<lambda>j. list_all (\<lambda>row. j < length row) rows) [0 ..< n]
     = list_all (\<lambda>row. n \<le> length row) rows"
  by (auto simp: list_all_iff)

lemma column_widths_eq:
  "rows \<noteq> [] \<Longrightarrow>
     column_widths rows = col_widths_loop [0 ..< length (hd rows)] rows (length (hd rows))"
  by (cases rows) (simp_all add: column_widths_def)

lemma column_widths_short:
  assumes "rows \<noteq> []" and "\<not> list_all (\<lambda>row. length (hd rows) \<le> length row) rows"
  shows "column_widths rows = Inl IndexError"
proof -
  from assms(2)
  have "\<not> list_all (\<lambda>j. list_all (\<lambda>row. j < length row) rows) [0 ..< length (hd rows)]"
    by (simp only: all_columns_iff not_False_eq_True)
  from col_widths_loop_Inl [OF assms(1) this] column_widths_eq [OF assms(1)]
  show ?thesis by simp
qed

lemma column_widths_ok:
  assumes "rows \<noteq> []" and "list_all (\<lambda>row. length (hd rows) \<le> length row) rows"
  shows "\<exists>ws. column_widths rows = Inr ws \<and> length ws = length (hd rows)"
proof -
  from assms(2)
  have "list_all (\<lambda>j. list_all (\<lambda>row. j < length row) rows) [0 ..< length (hd rows)]"
    by (simp only: all_columns_iff)
  from col_widths_loop_Inr [OF assms(1) this, of "length (hd rows)"] assms(1)
  show ?thesis
    by (simp add: column_widths_eq)
qed

lemmas string_eval =
  str_strip_def strip_by_def strip_chars_def is_space_def startswith_def str_count_def

lemma table_rows_example:
  "table_rows ''A | B | C\<newline>1 | 2 | 3\<newline>4 | 5 | 6''
     = [[''A'', ''B'', ''C''], [''1'', ''2'', ''3''], [''4'', ''5'', ''6'']]"
  by (simp add: table_rows_def string_eval)

lemma table_rows_short: "table_rows ''A | B | C\<newline>1 | 2'' = [[''A'', ''B'', ''C''], [''1'', ''2'']]"
  by (simp add: table_rows_def string_eval)

lemma table_rows_long: "table_rows ''A | B\<newline>1 | 2 | 3'' = [[''A'', ''B''], [''1'', ''2'', ''3'']]"
  by (simp add: table_rows_def string_eval)

lemma column_widths_long:
  "column_widths [[''A'', ''B''], [''1'', ''2'', ''3'']] = Inr [36 / 5, 36 / 5]"
  by (simp add: column_widths_def py_max_def col_width_def inch_def doc_width_def)

text \<open>
  C5. The rows the code computes are those of the parser as the specification words it
  (the reply is stripped and split into lines, each line is split on the delimiter,
  every cell is trimmed; stripping a line before splitting it changes no trimmed cell);
  there is always a first row, the header; and the reply of three lines of three cells
  gives the grid of three rows of three trimmed cells.
\<close>

theorem pipe_table_parsing:
  "table_rows data = table_rows_spec data
   \<and> table_rows data \<noteq> []
   \<and> table_rows ''A | B | C\<newline>1 | 2 | 3\<newline>4 | 5 | 6''
       = [[''A'', ''B'', ''C''], [''1'', ''2'', ''3''], [''4'', ''5'', ''6'']]"
  by (intro conjI table_rows_refines table_rows_not_Nil table_rows_example)

text \<open>
  C3, as stated, fails for a row longer than the header: the code's own steps raise
  nothing on it, and with a layout library that accepts the table the reply with a
  header of two cells and a row of three is assembled, the row of three unchanged.
\<close>

theorem malformed_table_counterexample:
  "create_table_from_data lenient_reportlab (PStr ''A | B\<newline>1 | 2 | 3'') ''T''
     = Inr [Paragraph ''<b>T</b>'' ''TableTitle'',
            Table [[''A'', ''B''], [''1'', ''2'', ''3'']] [36 / 5, 36 / 5],
            Spacer]"
  by (simp add: create_table_from_data_def table_rows_long column_widths_long
      lenient_reportlab_def make_paragraph_def)

text \<open>
  C3, amended. Parsing keeps every row as split and trimmed: a row has one cell more
  than its line has delimiters, whatever the length of the header. A row shorter than
  the header makes the computation of the column widths raise \<open>IndexError\<close>, so
  \<open>create_table_from_data\<close> fails. When no row is shorter (some may be longer), the
  widths are computed, one per header cell, and the rows reach the table constructor
  unchanged: whether the table is refused is then the layout library's decision.
\<close>

theorem malformed_table_passthrough:
  "table_rows data = table_rows_spec data
   \<and> map length (table_rows data)
       = map (\<lambda>line. Suc (str_count CHR ''|'' line)) (str_split CHR ''\<newline>'' (str_strip data))
   \<and> (\<not> list_all (\<lambda>row. length (hd (table_rows data)) \<le> length row) (table_rows data) \<longrightarrow>
        create_table_from_data rl (PStr data) table_title = Inl IndexError)
   \<and> (list_all (\<lambda>row. length (hd (table_rows data)) \<le> length row) (table_rows data) \<longrightarrow>
        (\<exists>ws. column_widths (table_rows data) = Inr ws
           \<and> length ws = length (hd (table_rows data))
           \<and> create_table_from_data rl (PStr data) table_title
               = (case table_raises rl (table_rows data) ws of
                    Some e \<Rightarrow> Inl e
                  | None \<Rightarrow>
                      and_then (make_paragraph rl (''<b>'' @ table_title @ ''</b>'') ''TableTitle'')
                        (\<lambda>title. Inr [title, Table (table_rows data) ws, Spacer]))))"
proof (intro conjI impI)
  show "table_rows data = table_rows_spec data" by (rule table_rows_refines)
  show "map length (table_rows data)
     = map (\<lambda>line. Suc (str_count CHR ''|'' line)) (str_split CHR ''\<newline>'' (str_strip data))"
    by (rule map_length_table_rows)
next
  assume "\<not> list_all (\<lambda>row. length (hd (table_rows data)) \<le> length row) (table_rows data)"
  then have "column_widths (table_rows data) = Inl IndexError"
    by (rule column_widths_short [OF table_rows_not_Nil])
  then show "create_table_from_data rl (PStr data) table_title = Inl IndexError"
    by (simp add: create_table_from_data_def)
next
  assume "list_all (\<lambda>row. length (hd (table_rows data)) \<le> length row) (table_rows data)"
  then obtain ws where ws: "column_widths (table_rows data) = Inr ws"
      "length ws = length (hd (table_rows data))"
    using column_widths_ok [OF table_rows_not_Nil] by blast
  have "create_table_from_data rl (PStr data) table_title
          = (case table_raises rl (table_rows data) ws of
               Some e \<Rightarrow> Inl e
             | None \<Rightarrow>
                 and_then (make_paragraph rl (''<b>'' @ table_title @ ''</b>'') ''TableTitle'')
                   (\<lambda>title. Inr [title, Table (table_rows data) ws, Spacer]))"
    using ws(1) by (simp add: create_table_from_data_def split: option.splits)
  with ws show "\<exists>ws. column_widths (table_rows data) = Inr ws
           \<and> length ws = length (hd (table_rows data))
           \<and> create_table_from_data rl (PStr data) table_title
               = (case table_raises rl (table_rows data) ws of
                    Some e \<Rightarrow> Inl e
                  | None \<Rightarrow>
                      and_then (make_paragraph rl (''<b>'' @ table_title @ ''</b>'') ''TableTitle'')
                        (\<lambda>title. Inr [title, Table (table_rows data) ws, Spacer]))"
    by blast
qed

text \<open>The amended C3 at a reply with a short row and at one with a long row.\<close>

theorem malformed_table_passthrough_witness:
  "create_table_from_data lenient_reportlab (PStr ''A | B | C\<newline>1 | 2'') ''T'' = Inl IndexError
   \<and> (\<exists>ws. column_widths (table_rows ''A | B\<newline>1 | 2 | 3'') = Inr ws
         \<and> length ws = 2
         \<and> create_table_from_data lenient_reportlab (PStr ''A | B\<newline>1 | 2 | 3'') ''T''
             = Inr [Paragraph ''<b>T</b>'' ''TableTitle'',
                    Table [[''A'', ''B''], [''1'', ''2'', ''3'']] ws, Spacer])"
proof -
  note short = malformed_table_passthrough [of "''A | B | C\<newline>1 | 2''" lenient_reportlab "''T''"]
  note long = malformed_table_passthrough [of "''A | B\<newline>1 | 2 | 3''" lenient_reportlab "''T''"]
  have "\<not> list_all (\<lambda>row. length (hd (table_rows ''A | B | C\<newline>1 | 2'')) \<le> length row)
            (table_rows ''A | B | C\<newline>1 | 2'')"
    by (simp add: table_rows_short)
  with short
  have a: "create_table_from_data lenient_reportlab (PStr ''A | B | C\<newline>1 | 2'') ''T''
             = Inl IndexError"
    by blast
  have "list_all (\<lambda>row. length (hd (table_rows ''A | B\<newline>1 | 2 | 3'')) \<le> length row)
            (table_rows ''A | B\<newline>1 | 2 | 3'')"
    by (simp add: table_rows_long)
  with long obtain ws where ws: "column_widths (table_rows ''A | B\<newline>1 | 2 | 3'') = Inr ws"
      "length ws = length (hd (table_rows ''A | B\<newline>1 | 2 | 3''))"
      "create_table_from_data lenient_reportlab (PStr ''A | B\<newline>1 | 2 | 3'') ''T''
         = (case table_raises lenient_reportlab (table_rows ''A | B\<newline>1 | 2 | 3'') ws of
              Some e \<Rightarrow> Inl e
            | None \<Rightarrow>
                and_then (make_paragraph lenient_reportlab (''<b>'' @ ''T'' @ ''</b>'') ''TableTitle'')
                  (\<lambda>title. Inr [title, Table (table_rows ''A | B\<newline>1 | 2 | 3'') ws, Spacer]))"
    by blast
  from ws(2) have "length ws = 2" by (simp add: table_rows_long)
  moreover from ws(3)
  have "create_table_from_data lenient_reportlab (PStr ''A | B\<newline>1 | 2 | 3'') ''T''
          = Inr [Paragraph ''<b>T</b>'' ''TableTitle'',
                 Table [[''A'', ''B''], [''1'', ''2'', ''3'']] ws, Spacer]"
    by (simp add: table_rows_long lenient_reportlab_def make_paragraph_def)
  ultimately show ?thesis using a ws(1) by blast
qed

section \<open>Markdown blocks\<close>

lemma list_all_dropWhile: "list_all p (dropWhile p s) = list_all p s"
  by (induction s) auto

lemma strip_by_Nil_iff: "strip_by p s = [] \<longleftrightarrow> list_all p s"
  using list_all_dropWhile [of p s] by (simp add: strip_by_def list_all_iff)

lemma markdown_example:
  "document_blocks ''# Title\<newline>Body line\<newline>## Sub''
     = [Heading 1 ''Title'', Body ''Body line'', Heading 2 ''Sub'']"
  by (simp add: document_blocks_def document_block_def List.map_filter_def string_eval)

lemma blank_segments_dropped:
  "document_blocks ''# Title\<newline>\<newline>   \<newline>Body'' = [Heading 1 ''Title'', Body ''Body'']"
  by (simp add: document_blocks_def document_block_def List.map_filter_def string_eval)

lemma count_list_takeWhile_dropWhile:
  "count_list s c = length (takeWhile (\<lambda>x. x = c) s) + count_list (dropWhile (\<lambda>x. x = c) s) c"
  by (induction s) auto

lemma count_list_0: "c \<notin> set s \<Longrightarrow> count_list s c = 0"
  by (induction s) auto

lemma startswith_marker: "startswith ''#'' s \<longleftrightarrow> (\<exists>cs. s = CHR ''#'' # cs)"
  by (cases s) (auto simp: startswith_def)

lemma heading_not_blank: "startswith ''#'' s \<Longrightarrow> str_strip s \<noteq> []"
  by (auto simp: startswith_marker str_strip_def strip_by_Nil_iff is_space_def)

lemma heading_depth_leading_run:
  assumes "startswith ''#'' s" and "CHR ''#'' \<notin> set (dropWhile (\<lambda>c. c = CHR ''#'') s)"
  shows "document_block s = Some (Heading (leading_run s) (str_strip (strip_chars ''#'' s)))"
  using assms heading_not_blank [OF assms(1)]
    count_list_takeWhile_dropWhile [of s "CHR ''#''"]
  by (simp add: document_block_def str_count_def leading_run_def count_list_0)

lemma heading_depth_count: 
  "startswith ''#'' s \<Longrightarrow>
     document_block s = Some (Heading (str_count CHR ''#'' s) (str_strip (strip_chars ''#'' s)))"
  using heading_not_blank [of s] by (simp add: document_block_def)

lemma body_block:
  "\<not> startswith ''#'' s \<Longrightarrow> str_strip s \<noteq> [] \<Longrightarrow> document_block s = Some (Body s)"
  by (simp add: document_block_def)

lemma blank_block: "str_strip s = [] \<Longrightarrow> document_block s = None"
  by (simp add: document_block_def)

lemma str_nat_2: "str_nat (Suc (Suc 0)) = ''2''"
  by (simp add: str_nat.simps digit_char_def)

text \<open>
  C1 at the segment \<open># Issue #5\<close>: its leading run of markers has length 1, and the
  code gives it depth 2, the number of all the markers of the segment; the HTML variant
  renders it as a heading of level 2. (The lemmas above are what holds: blank segments
  give no block, other segments that do not start with the marker are kept unchanged,
  a heading's depth is the count of its markers, which is the length of the leading
  run when no marker follows it, and the input of three lines gives the three blocks
  of the specification.)
\<close>

theorem heading_depth_counts_every_marker:
  "document_blocks ''# Issue #5'' = [Heading 2 ''Issue #5'']
   \<and> leading_run ''# Issue #5'' = 1
   \<and> map block_html (document_blocks ''# Issue #5'') = [''<h2>Issue #5</h2>'']"
  by (simp add: document_blocks_def document_block_def List.map_filter_def string_eval
      leading_run_def str_nat_2)

section \<open>Content service client: exceptions\<close>

lemma generate_content_client_ok:
  "client_raises aws = None \<Longrightarrow> \<exists>reply. generate_content_with_bedrock aws prompt = Inr reply"
  by (simp add: generate_content_with_bedrock_def split: sum.splits)

lemma generate_content_invoke_raises:
  "client_raises aws = None \<Longrightarrow> invoke_model aws prompt = Inl e \<Longrightarrow>
     generate_content_with_bedrock aws prompt = Inr PNone"
  by (simp add: generate_content_with_bedrock_def)

lemma generate_content_loads_raises:
  "client_raises aws = None \<Longrightarrow> invoke_model aws prompt = Inr body \<Longrightarrow> json_loads aws body = Inl e \<Longrightarrow>
     generate_content_with_bedrock aws prompt = Inr PNone"
  by (simp add: generate_content_with_bedrock_def)

lemma generate_content_reply:
  "client_raises aws = None \<Longrightarrow> invoke_model aws prompt = Inr body \<Longrightarrow>
   json_loads aws body = Inr (PDict [(''content'', PList [PDict [(''text'', PStr reply)]])]) \<Longrightarrow>
     generate_content_with_bedrock aws prompt = Inr (PStr reply)"
  by (simp add: generate_content_with_bedrock_def)

text \<open>
  C4 where \<open>boto3.client\<close> raises: the call is made before the \<open>try\<close>, so the
  exception leaves \<open>generate_content_with_bedrock\<close>. (The lemmas above are what
  holds: once the client is made, every outcome of the call, of the decoding and of the
  extraction gives a returned value, \<open>None\<close> on any exception.)
\<close>

theorem client_construction_exception_propagates:
  "generate_content_with_bedrock
     \<lparr>client_raises = Some (LibraryError ''UnknownServiceError''),
      invoke_model = (\<lambda>prompt. Inr ''{}''),
      json_loads = (\<lambda>body. Inr (PDict []))\<rparr> prompt
     = Inl (LibraryError ''UnknownServiceError'')"
  by (simp add: generate_content_with_bedrock_def)

section \<open>Prompt builder: completeness\<close>

lemma member_sublist_concat: "x \<in> set xss \<Longrightarrow> sublist x (concat xss)"
proof -
  assume "x \<in> set xss"
  then obtain as bs where "xss = as @ x # bs" by (auto dest: split_list)
  then have "concat xss = concat as @ x @ concat bs" by simp
  then show ?thesis by (simp only: sublist_appendI)
qed

lemma sublist_str_join: "x \<in> set xs \<Longrightarrow> sublist x (str_join sep xs)"
proof (induction sep xs rule: str_join.induct)
  case (1 sep)
  then show ?case by simp
next
  case (2 sep y)
  then show ?case by simp
next
  case (3 sep y z zs)
  show ?case
  proof (cases "x = y")
    case True
    then show ?thesis by simp
  next
    case False
    with 3 have "sublist x (str_join sep (z # zs))" by simp
    then have "sublist x ((y @ sep) @ str_join sep (z # zs))"
      by (rule sublist_order.order.trans) (rule sublist_append_leftI)
    then show ?thesis by simp
  qed
qed

lemma joined_in_prompt:
  "sublist (str_join sep xs) p \<Longrightarrow> list_all (\<lambda>x. sublist x p) xs"
  by (auto simp: list_all_iff intro: sublist_order.order.trans sublist_str_join)

lemma referenced_pdf_contract:
  "list_all (\<lambda>field. sublist field (prompt_pdf Contract si)) (referenced_pdf Contract si)"
  unfolding prompt_pdf.simps referenced_pdf.simps create_contract_prompt_pdf_def list.pred_inject
  by (intro conjI member_sublist_concat TrueI; simp)

lemma referenced_pdf_rates:
  "list_all (\<lambda>field. sublist field (prompt_pdf Rates si)) (referenced_pdf Rates si)"
  unfolding prompt_pdf.simps referenced_pdf.simps generate_rate_schedule_prompt_pdf_def
    list.pred_inject
  by (intro conjI member_sublist_concat TrueI; simp)

lemma referenced_pdf_areas:
  "list_all (\<lambda>field. sublist field (prompt_pdf Service_areas si)) (referenced_pdf Service_areas si)"
  unfolding prompt_pdf.simps referenced_pdf.simps generate_service_areas_prompt_pdf_def
    list.pred_inject
  by (intro conjI member_sublist_concat TrueI; simp)

lemma referenced_pdf_performance:
  "list_all (\<lambda>field. sublist field (prompt_pdf Performance si)) (referenced_pdf Performance si)"
  unfolding prompt_pdf.simps referenced_pdf.simps generate_performance_standards_prompt_pdf_def
    list.pred_inject
  by (intro conjI member_sublist_concat TrueI; simp)

lemma referenced_pdf_all:
  "list_all (\<lambda>field. sublist field (prompt_pdf kind si)) (referenced_pdf kind si)"
  by (cases kind)
    (simp_all only: referenced_pdf_contract referenced_pdf_rates referenced_pdf_areas
      referenced_pdf_performance)

lemma referenced_html_contract:
  "list_all (\<lambda>field. sublist field (prompt_html Contract si)) (referenced_html Contract si)"
  unfolding prompt_html.simps referenced_html.simps create_contract_prompt_html_def
    list.pred_inject
  by (intro conjI member_sublist_concat TrueI; simp)

lemma referenced_html_rates:
  "list_all (\<lambda>field. sublist field (prompt_html Rates si)) (referenced_html Rates si)"
  unfolding prompt_html.simps referenced_html.simps generate_rate_schedule_prompt_html_def
    list.pred_inject
  by (intro conjI member_sublist_concat TrueI; simp)

lemma referenced_html_areas:
  "list_all (\<lambda>field. sublist field (prompt_html Service_areas si))
     (referenced_html Service_areas si)"
  unfolding prompt_html.simps referenced_html.simps generate_service_areas_prompt_html_def
    list.pred_inject
  by (intro conjI member_sublist_concat TrueI; simp)

lemma referenced_html_performance:
  "list_all (\<lambda>field. sublist field (prompt_html Performance si))
     (referenced_html Performance si)"
  unfolding prompt_html.simps referenced_html.simps generate_performance_standards_prompt_html_def
    list.pred_inject
  by (intro conjI member_sublist_concat TrueI; simp)

lemma referenced_html_all:
  "list_all (\<lambda>field. sublist field (prompt_html kind si)) (referenced_html kind si)"
  by (cases kind)
    (simp_all only: referenced_html_contract referenced_html_rates referenced_html_areas
      referenced_html_performance)

lemma regions_pdf:
  "list_all (\<lambda>region. sublist region (prompt_pdf Contract si)) (service_regions si)"
  using referenced_pdf_contract [of si] by (intro joined_in_prompt [of "'', ''"]) simp

lemma regions_html:
  "list_all (\<lambda>region. sublist region (prompt_html Contract si)) (service_regions si)"
  using referenced_html_contract [of si] by (intro joined_in_prompt [of "'', ''"]) simp

lemma florida:
  "map_of state_configs ''FL'' =
     Some \<lparr>state = ''Florida'', state_abbrev = ''FL'',
        health_agency = ''Florida Department of Health'',
        agency_city = ''Tallahassee'',
        provider_name = ''SafeRide Transit Solutions'',
        provider_city = ''Orlando'',
        service_regions = [''Orange County'', ''Seminole County'', ''Osceola County''],
        contract_date = ''March 15, 2024'',
        provider_details =
          \<lparr>fleet_size = 50, operating_hours = ''24/7'', driver_count = 120,
           contract_term = ''2-year contract with 1-year renewal option''\<rparr>\<rparr>"
  by (simp add: state_configs_def)

lemma str_int_50: "str_int 50 = ''50''"
  by (simp add: str_int_def str_nat.simps digit_char_def)

text \<open>
  C8. Every value a template refers to is a substring of the prompt built from it, for
  each of the four content kinds of both variants, and so is every service region (the
  contract templates join them). For the Florida record the contract prompts contain
  the three substrings of the specification. The builders are total functions to
  strings: building a prompt has no failure.
\<close>

theorem prompt_completeness:
  "list_all (\<lambda>field. sublist field (prompt_pdf kind si)) (referenced_pdf kind si)
   \<and> list_all (\<lambda>field. sublist field (prompt_html kind si)) (referenced_html kind si)
   \<and> list_all (\<lambda>region. sublist region (prompt_pdf Contract si)) (service_regions si)
   \<and> list_all (\<lambda>region. sublist region (prompt_html Contract si)) (service_regions si)
   \<and> (case map_of state_configs ''FL'' of
         None \<Rightarrow> False
       | Some fl \<Rightarrow>
           list_all (\<lambda>field. sublist field (create_contract_prompt_pdf fl)
                            \<and> sublist field (create_contract_prompt_html fl))
             [''Florida'', ''Florida Department of Health'', ''50''])"
proof -
  let ?fl = "\<lparr>state = ''Florida'', state_abbrev = ''FL'',
        health_agency = ''Florida Department of Health'',
        agency_city = ''Tallahassee'',
        provider_name = ''SafeRide Transit Solutions'',
        provider_city = ''Orlando'',
        service_regions = [''Orange County'', ''Seminole County'', ''Osceola County''],
        contract_date = ''March 15, 2024'',
        provider_details =
          \<lparr>fleet_size = 50, operating_hours = ''24/7'', driver_count = 120,
           contract_term = ''2-year contract with 1-year renewal option''\<rparr>\<rparr>"
  have "list_all (\<lambda>field. sublist field (create_contract_prompt_pdf ?fl)
                            \<and> sublist field (create_contract_prompt_html ?fl))
             [''Florida'', ''Florida Department of Health'', ''50'']"
    using referenced_pdf_contract [of ?fl] referenced_html_contract [of ?fl]
    by (simp add: str_int_50)
  then show ?thesis
    by (simp only: florida option.case referenced_pdf_all referenced_html_all regions_pdf
        regions_html simp_thms)
qed

section \<open>Batch driver: the summary\<close>

lemma failed_codes_Nil [simp]: "failed_codes [] oks = []"
  by (simp add: failed_codes_def)

lemma failed_codes_Cons [simp]:
  "failed_codes ((code, info) # batch) (ok # oks)
     = (if ok then failed_codes batch oks else code # failed_codes batch oks)"
  by (simp add: failed_codes_def)

lemma length_outcomes: "length (outcomes process batch w) = length batch"
  by (induction process batch w rule: outcomes.induct) (auto split: prod.splits)

lemma main_loop_accumulators:
  "fst (main_loop process batch w successful_states failed_states)
     = (successful_states + length (filter id (outcomes process batch w)),
        failed_states @ failed_codes batch (outcomes process batch w))"
proof (induction batch arbitrary: w successful_states failed_states)
  case Nil
  then show ?case by simp
next
  case (Cons entry batch)
  obtain state_code state_info where entry: "entry = (state_code, state_info)"
    by (cases entry)
  obtain ok w' where step: "process w state_info = (ok, w')"
    by (cases "process w state_info")
  show ?case
    by (cases ok) (simp_all add: entry step Cons.IH)
qed

lemma main_loop_world:
  "snd (main_loop process batch w successful_states failed_states)
     = foldl (\<lambda>w entry. snd (process w (snd entry))) w batch"
proof (induction batch arbitrary: w successful_states failed_states)
  case Nil
  then show ?case by simp
next
  case (Cons entry batch)
  obtain state_code state_info where entry: "entry = (state_code, state_info)"
    by (cases entry)
  obtain ok w' where step: "process w state_info = (ok, w')"
    by (cases "process w state_info")
  show ?case
    by (cases ok) (simp_all add: entry step Cons.IH)
qed

lemma length_failed_codes:
  "length oks = length batch \<Longrightarrow> length (failed_codes batch oks) = length (filter Not oks)"
proof (induction batch arbitrary: oks)
  case Nil
  then show ?case by simp
next
  case (Cons entry batch)
  then obtain ok oks' where "oks = ok # oks'" by (cases oks) auto
  with Cons show ?case by (cases entry) simp
qed

lemma count_successes:
  "length (filter id oks) = length oks - length (filter Not oks)"
  by (induction oks) (auto simp: Suc_diff_le)

lemma state_codes_are_abbrevs:
  "map fst state_configs = map (\<lambda>entry. state_abbrev (snd entry)) state_configs"
  by (simp add: state_configs_def)

lemma state_codes_distinct: "distinct (map fst state_configs)"
  by (simp add: state_configs_def)

lemma failed_codes_Nil_iff:
  "length oks = length batch \<Longrightarrow> failed_codes batch oks = [] \<longleftrightarrow> filter Not oks = []"
  using length_failed_codes [of oks batch] by (metis length_0_conv)

lemma str_nat_11: "str_nat 11 = ''11''"
  by (simp add: str_nat.simps digit_char_def)

lemma example_loop:
  "fst (main_loop (failing_for [''TX'', ''MA'']) state_configs w 0 []) = (11, [''TX'', ''MA''])"
  by (simp add: state_configs_def failing_for_def)

text \<open>
  C6. For any per-record function and any batch, the loop runs the function on every
  record, in order (the final state is that of the fold over the whole batch, and there
  is one outcome per record); the list of failures is the codes of exactly the records
  whose outcome is failure, in the order of the batch, whatever their positions; and
  the count of successes is the size of the batch less the number of failures. The
  summary the direct-PDF variant prints is the line of that count and, when a record
  failed, the line of those codes; the HTML variant's has the number of failures as its
  second line. With a per-record function that fails for \<open>TX\<close> and \<open>MA\<close>, the second
  and the last record of the table, the summary reports 11 contracts and lists the two
  codes. In the table of both variants the codes are the records' abbreviations, each
  once.
\<close>

theorem batch_summary:
  "length (outcomes process batch w) = length batch
   \<and> snd (main_loop process batch w 0 [])
       = foldl (\<lambda>w entry. snd (process w (snd entry))) w batch
   \<and> snd (fst (main_loop process batch w 0 [])) = failed_codes batch (outcomes process batch w)
   \<and> length (snd (fst (main_loop process batch w 0 [])))
       = length (filter Not (outcomes process batch w))
   \<and> fst (fst (main_loop process batch w 0 []))
       = length batch - length (filter Not (outcomes process batch w))
   \<and> summary_pdf (fst (main_loop process batch w 0 []))
       = [''Successfully generated: ''
            @ str_nat (length batch - length (filter Not (outcomes process batch w)))
            @ '' contracts'']
         @ (if filter Not (outcomes process batch w) = [] then []
            else [''Failed states: ''
                    @ str_join '', '' (failed_codes batch (outcomes process batch w))])
   \<and> summary_html (fst (main_loop process batch w 0 []))
       = [''Successfully generated: ''
            @ str_nat (length batch - length (filter Not (outcomes process batch w)))
            @ '' contracts'',
          ''Failed states: '' @ str_nat (length (filter Not (outcomes process batch w)))]
         @ (if filter Not (outcomes process batch w) = [] then []
            else [''Failed state codes: ''
                    @ str_join '', '' (failed_codes batch (outcomes process batch w))])
   \<and> summary_pdf (fst (main_loop (failing_for [''TX'', ''MA'']) state_configs w 0 []))
       = [''Successfully generated: 11 contracts'', ''Failed states: TX, MA'']
   \<and> summary_html (fst (main_loop (failing_for [''TX'', ''MA'']) state_configs w 0 []))
       = [''Successfully generated: 11 contracts'', ''Failed states: 2'',
          ''Failed state codes: TX, MA'']
   \<and> map fst state_configs = map (\<lambda>entry. state_abbrev (snd entry)) state_configs
   \<and> distinct (map fst state_configs)"
proof -
  let ?oks = "outcomes process batch w"
  have n: "length ?oks = length batch" by (rule length_outcomes)
  have k: "length (failed_codes batch ?oks) = length (filter Not ?oks)"
    using n by (rule length_failed_codes)
  have e: "failed_codes batch ?oks = [] \<longleftrightarrow> filter Not ?oks = []"
    using n by (rule failed_codes_Nil_iff)
  have s: "length (filter id ?oks) = length batch - length (filter Not ?oks)"
    using count_successes [of ?oks] n by simp
  have acc: "fst (main_loop process batch w 0 []) = (length (filter id ?oks), failed_codes batch ?oks)"
    by (simp add: main_loop_accumulators)
  have acc': "fst (main_loop process batch w 0 [])
      = (length batch - length (filter Not ?oks), failed_codes batch ?oks)"
    using acc s by simp
  have pdf: "summary_pdf (fst (main_loop process batch w 0 []))
       = [''Successfully generated: ''
            @ str_nat (length batch - length (filter Not ?oks))
            @ '' contracts'']
         @ (if filter Not ?oks = [] then []
            else [''Failed states: '' @ str_join '', '' (failed_codes batch ?oks)])"
    unfolding acc' summary_pdf_def using e by simp
  have html: "summary_html (fst (main_loop process batch w 0 []))
       = [''Successfully generated: ''
            @ str_nat (length batch - length (filter Not ?oks))
            @ '' contracts'',
          ''Failed states: '' @ str_nat (length (filter Not ?oks))]
         @ (if filter Not ?oks = [] then []
            else [''Failed state codes: '' @ str_join '', '' (failed_codes batch ?oks)])"
    unfolding acc' summary_html_def using e k by simp
  have ex1: "summary_pdf (fst (main_loop (failing_for [''TX'', ''MA'']) state_configs w 0 []))
       = [''Successfully generated: 11 contracts'', ''Failed states: TX, MA'']"
    unfolding example_loop by (simp add: summary_pdf_def str_nat_11)
  have ex2: "summary_html (fst (main_loop (failing_for [''TX'', ''MA'']) state_configs w 0 []))
       = [''Successfully generated: 11 contracts'', ''Failed states: 2'',
          ''Failed state codes: TX, MA'']"
    unfolding example_loop by (simp add: summary_html_def str_nat_11 str_nat_2)
  from n k acc' main_loop_world [of process batch w 0 "[]"]
    state_codes_are_abbrevs state_codes_distinct
  have rest: "length (outcomes process batch w) = length batch
   \<and> snd (main_loop process batch w 0 [])
       = foldl (\<lambda>w entry. snd (process w (snd entry))) w batch
   \<and> snd (fst (main_loop process batch w 0 [])) = failed_codes batch (outcomes process batch w)
   \<and> length (snd (fst (main_loop process batch w 0 [])))
       = length (filter Not (outcomes process batch w))
   \<and> fst (fst (main_loop process batch w 0 []))
       = length batch - length (filter Not (outcomes process batch w))
   \<and> map fst state_configs = map (\<lambda>entry. state_abbrev (snd entry)) state_configs
   \<and> distinct (map fst state_configs)"
    by (simp only: fst_conv snd_conv simp_thms)
  from rest pdf html ex1 ex2 show ?thesis by blast
qed

section \<open>The content gate\<close>

lemma generate_all_Inr:
  "generate_all content = Inr (a, b, c, d) \<longleftrightarrow>
     content Contract = Inr a \<and> content Rates = Inr b \<and> content Service_areas = Inr c
     \<and> content Performance = Inr d"
  by (auto simp: generate_all_def and_then_def split: sum.splits)

lemma generate_all_member:
  "generate_all content = Inr (a, b, c, d) \<Longrightarrow> content kind = Inr v \<Longrightarrow> v \<in> set [a, b, c, d]"
  by (cases kind) (auto simp: generate_all_Inr)

lemma missing_not_truthy: "missing v \<Longrightarrow> \<not> truthy v"
  by (auto simp: missing_def)

lemma gate_closed:
  assumes "generate_all content = Inr (a, b, c, d)" and "content kind = Inr v" and "missing v"
  shows "\<not> list_all truthy [a, b, c, d]"
  using generate_all_member [OF assms(1, 2)] missing_not_truthy [OF assms(3)]
  by auto

lemma gate_pdf:
  assumes "content_pdf aws si kind = Inr v" and "missing v"
  shows "process_state_pdf aws rl date_str w si = (False, w)"
proof (cases "generate_all (content_pdf aws si)")
  case (Inl e)
  then show ?thesis by (simp add: process_state_pdf_def)
next
  case (Inr r)
  obtain a b c d where r: "r = (a, b, c, d)" by (cases r) auto
  from gate_closed [OF Inr [unfolded r] assms] Inr r show ?thesis
    by (auto simp: process_state_pdf_def)
qed

lemma gate_html:
  assumes "content_html aws si kind = Inr v" and "missing v"
  shows "process_state_html aws tools date_str date w si = (False, w)"
proof (cases "generate_all (content_html aws si)")
  case (Inl e)
  then show ?thesis by (simp add: process_state_html_def)
next
  case (Inr r)
  obtain a b c d where r: "r = (a, b, c, d)" by (cases r) auto
  from gate_closed [OF Inr [unfolded r] assms] Inr r show ?thesis
    by (auto simp: process_state_html_def)
qed

text \<open>
  C2. In both variants, if the call for any one of the four content kinds returns
  \<open>None\<close> or the empty string, \<open>process_state\<close> returns \<open>False\<close> and leaves the state
  of the run as it was: no call to the assembler is in the trace and no file is
  written.
\<close>

theorem content_gate:
  "(content_pdf aws si kind = Inr v \<and> missing v \<longrightarrow>
      process_state_pdf aws rl date_str w si = (False, w))
   \<and> (content_html aws si kind = Inr v \<and> missing v \<longrightarrow>
      process_state_html aws tools date_str date w si = (False, w))"
  using gate_pdf gate_html by blast

text \<open>C2 at a content service whose calls all fail: the contract body is \<open>None\<close>.\<close>

theorem content_gate_witness:
  "content_pdf failing_bedrock florida Contract = Inr PNone
   \<and> content_html failing_bedrock florida Contract = Inr PNone
   \<and> missing PNone
   \<and> process_state_pdf failing_bedrock lenient_reportlab ''20240315'' fresh florida = (False, fresh)
   \<and> process_state_html failing_bedrock (sample_tools True True True) ''20240315''
        ''March 15, 2024'' fresh florida = (False, fresh)"
  using content_gate [of failing_bedrock florida Contract PNone lenient_reportlab "''20240315''"
      fresh "sample_tools True True True" "''March 15, 2024''"]
  by (simp add: content_pdf_def content_html_def generate_content_with_bedrock_def
      failing_bedrock_def missing_def)

section \<open>HTML variant: conversion to PDF\<close>


lemma try_three_calls:
  "fst (try_in_order [(a, ra), (b, rb), (c, rc)])
     = (if isl ra then (if isl rb then [a, b, c] else [a, b]) else [a])"
  by (cases ra; cases rb; cases rc) simp_all

lemma convert_to_pdf_refines:
  "calls (snd (convert_to_pdf tools html_filename html_content opts w))
     = calls w @ fst (try_in_order
         [(From_file html_filename opts, from_file tools html_filename (files w html_filename) opts),
          (From_string opts, from_string tools html_content opts),
          (From_file html_filename simple_options,
           from_file tools html_filename (files w html_filename) simple_options)])
   \<and> files (snd (convert_to_pdf tools html_filename html_content opts w)) = files w
   \<and> (\<not> isl (fst (convert_to_pdf tools html_filename html_content opts w)))
     = snd (try_in_order
         [(From_file html_filename opts, from_file tools html_filename (files w html_filename) opts),
          (From_string opts, from_string tools html_content opts),
          (From_file html_filename simple_options,
           from_file tools html_filename (files w html_filename) simple_options)])"
  by (cases "from_file tools html_filename (files w html_filename) opts";
      cases "from_string tools html_content opts";
      cases "from_file tools html_filename (files w html_filename) simple_options")
    (simp_all add: convert_to_pdf_def Let_def called_def)

lemma pdf_step_configured:
  assumes "configuration_raises tools = None"
  shows "calls (snd (pdf_step tools si date hf html pf w))
           = calls w @ fst (try_in_order
               [(From_file hf (options si date), from_file tools hf (files w hf) (options si date)),
                (From_string (options si date), from_string tools html (options si date)),
                (From_file hf simple_options, from_file tools hf (files w hf) simple_options)])
         \<and> fst (pdf_step tools si date hf html pf w)
           = snd (try_in_order
               [(From_file hf (options si date), from_file tools hf (files w hf) (options si date)),
                (From_string (options si date), from_string tools html (options si date)),
                (From_file hf simple_options, from_file tools hf (files w hf) simple_options)])
         \<and> (hf \<noteq> pf \<longrightarrow> files (snd (pdf_step tools si date hf html pf w)) hf = files w hf)"
proof -
  obtain r w' where c: "convert_to_pdf tools hf html (options si date) w = (r, w')"
    by (cases "convert_to_pdf tools hf html (options si date) w")
  from convert_to_pdf_refines [of tools hf html "options si date" w] c assms show ?thesis
    by (cases r) (auto simp: pdf_step_def stored_def)
qed


lemma html_names_differ: "base @ ''.html'' \<noteq> base @ ''.pdf''"
  by simp

lemma process_state_html_saved:
  assumes "generate_all (content_html aws si) = Inr (ct, rs, sa, ps)"
    and "list_all truthy [ct, rs, sa, ps]"
    and "create_document_html tools (contract_title si) date ct rs sa ps = Inr html"
    and "hf = generate_filename_html ''Transportation_Contract'' date_str si @ ''.html''"
    and "open_raises tools hf = None"
    and "write_raises tools hf html = None"
  shows "process_state_html aws tools date_str date w si
           = pdf_step tools si date hf html
               (generate_filename_html ''Transportation_Contract'' date_str si @ ''.pdf'')
               (called (Write_file hf) (stored hf html
                 (called (Open_file hf) (stored hf []
                   (called (Create_document (contract_title si)) w)))))"
  using assms by (simp add: process_state_html_def Let_def)

lemma saved_world:
  "calls (called (Write_file hf) (stored hf html
            (called (Open_file hf) (stored hf []
              (called (Create_document title) w)))))
     = calls w @ [Create_document title, Open_file hf, Write_file hf]
   \<and> files (called (Write_file hf) (stored hf html
            (called (Open_file hf) (stored hf []
              (called (Create_document title) w))))) hf = Some html"
  by (simp add: called_def stored_def)






lemma pdf_step_trace:
  "\<exists>made. calls (snd (pdf_step tools si date hf html pf w)) = calls w @ made
     \<and> prefix made [From_file hf (options si date), From_string (options si date),
                      From_file hf simple_options]"
proof (cases "configuration_raises tools")
  case None
  from pdf_step_configured [OF None, of si date hf html pf w] show ?thesis
    by (auto simp: try_three_calls)
next
  case (Some e)
  then show ?thesis by (simp add: pdf_step_def)
qed

lemma process_state_html_trace:
  assumes "hf = generate_filename_html ''Transportation_Contract'' date_str si @ ''.html''"
  shows "\<exists>made. calls (snd (process_state_html aws tools date_str date w si)) = calls w @ made
     \<and> prefix made [Create_document (contract_title si), Open_file hf, Write_file hf,
                      From_file hf (options si date), From_string (options si date),
                      From_file hf simple_options]"
proof (cases "generate_all (content_html aws si)")
  case (Inl e)
  then show ?thesis by (simp add: process_state_html_def)
next
  case (Inr r)
  obtain ct rs sa ps where r: "r = (ct, rs, sa, ps)" by (cases r) auto
  show ?thesis
  proof (cases "list_all truthy [ct, rs, sa, ps]")
    case False
    with Inr r show ?thesis by (auto simp: process_state_html_def)
  next
    case gate: True
    show ?thesis
    proof (cases "create_document_html tools (contract_title si) date ct rs sa ps")
      case (Inl e)
      with Inr r gate show ?thesis
        by (simp add: process_state_html_def Let_def called_def)
    next
      case doc: (Inr html)
      show ?thesis
      proof (cases "open_raises tools hf")
        case (Some e)
        with Inr r gate doc assms show ?thesis
          by (simp add: process_state_html_def Let_def called_def)
      next
        case opened: None
        show ?thesis
        proof (cases "write_raises tools hf html")
          case (Some e)
          with Inr r gate doc opened assms show ?thesis
            by (simp add: process_state_html_def Let_def called_def stored_def)
        next
          case written: None
          let ?w3 = "called (Write_file hf) (stored hf html
               (called (Open_file hf) (stored hf []
                 (called (Create_document (contract_title si)) w))))"
          let ?pf = "generate_filename_html ''Transportation_Contract'' date_str si @ ''.pdf''"
          have run: "process_state_html aws tools date_str date w si
                       = pdf_step tools si date hf html ?pf ?w3"
            using Inr [unfolded r] gate doc assms opened written
            by (rule process_state_html_saved)
          from pdf_step_trace [of tools si date hf html ?pf ?w3]
            saved_world [of hf html "contract_title si" w]
          show ?thesis
            unfolding run by auto
        qed
      qed
    qed
  qed
qed

text \<open>
  C10. In every run of \<open>process_state\<close> of the HTML variant the calls made are an
  initial part of: building the document, opening the HTML file, writing it, and the
  three conversion attempts; so no conversion is attempted before the file is written.
  For a record that passes the gate, whose document is built and written, whose
  renderer is configured and whose three attempts all raise, \<open>process_state\<close> returns
  \<open>False\<close>, all six calls were made in that order, and the HTML file is on the disk
  with the document as its content: nothing removes it.
\<close>

theorem html_kept_on_failure:
  assumes "generate_all (content_html aws si) = Inr (ct, rs, sa, ps)"
    and "list_all truthy [ct, rs, sa, ps]"
    and "create_document_html tools (contract_title si) date ct rs sa ps = Inr html"
    and "hf = generate_filename_html ''Transportation_Contract'' date_str si @ ''.html''"
    and "open_raises tools hf = None"
    and "write_raises tools hf html = None"
    and "configuration_raises tools = None"
    and "from_file tools hf (Some html) (options si date) = Inl e1"
    and "from_string tools html (options si date) = Inl e2"
    and "from_file tools hf (Some html) simple_options = Inl e3"
  shows "fst (process_state_html aws tools date_str date w si) = False
         \<and> files (snd (process_state_html aws tools date_str date w si)) hf = Some html
         \<and> calls (snd (process_state_html aws tools date_str date w si))
           = calls w @ [Create_document (contract_title si), Open_file hf, Write_file hf,
                        From_file hf (options si date), From_string (options si date),
                        From_file hf simple_options]
         \<and> (\<forall>aws' tools' w' si'. \<exists>made.
               calls (snd (process_state_html aws' tools' date_str date w' si')) = calls w' @ made
               \<and> prefix made
                   [Create_document (contract_title si'),
                    Open_file (generate_filename_html ''Transportation_Contract'' date_str si'
                               @ ''.html''),
                    Write_file (generate_filename_html ''Transportation_Contract'' date_str si'
                                @ ''.html''),
                    From_file (generate_filename_html ''Transportation_Contract'' date_str si'
                               @ ''.html'') (options si' date),
                    From_string (options si' date),
                    From_file (generate_filename_html ''Transportation_Contract'' date_str si'
                               @ ''.html'') simple_options])"
proof -
  let ?w3 = "called (Write_file hf) (stored hf html
               (called (Open_file hf) (stored hf []
                 (called (Create_document (contract_title si)) w))))"
  let ?pf = "generate_filename_html ''Transportation_Contract'' date_str si @ ''.pdf''"
  have run: "process_state_html aws tools date_str date w si = pdf_step tools si date hf html ?pf ?w3"
    using assms(1-6) by (rule process_state_html_saved)
  from saved_world [of hf html "contract_title si" w]
  have w3: "calls ?w3 = calls w @ [Create_document (contract_title si), Open_file hf, Write_file hf]"
      "files ?w3 hf = Some html"
    by simp_all
  have names: "hf \<noteq> ?pf"
    unfolding assms(4) by (rule html_names_differ)
  from pdf_step_configured [OF assms(7), of si date hf html ?pf ?w3] names
  have "fst (process_state_html aws tools date_str date w si) = False
         \<and> files (snd (process_state_html aws tools date_str date w si)) hf = Some html
         \<and> calls (snd (process_state_html aws tools date_str date w si))
           = calls w @ [Create_document (contract_title si), Open_file hf, Write_file hf,
                        From_file hf (options si date), From_string (options si date),
                        From_file hf simple_options]"
    unfolding run w3 by (simp add: assms(8-10))
  with process_state_html_trace [OF refl] show ?thesis
    by blast
qed

text \<open>C10 on a record whose three attempts all fail.\<close>

theorem html_kept_on_failure_witness:
  "fst (process_state_html (echo_bedrock ''Terms'') (sample_tools False False False)
        ''20240315'' ''March 15, 2024'' fresh florida) = False
   \<and> files (snd (process_state_html (echo_bedrock ''Terms'') (sample_tools False False False)
        ''20240315'' ''March 15, 2024'' fresh florida))
        ''Transportation_Contract_FL_20240315.html'' = Some ''<html><p>Terms</p></html>''
   \<and> calls (snd (process_state_html (echo_bedrock ''Terms'') (sample_tools False False False)
        ''20240315'' ''March 15, 2024'' fresh florida))
     = [Create_document ''Transportation Services Contract - Florida'',
        Open_file ''Transportation_Contract_FL_20240315.html'',
        Write_file ''Transportation_Contract_FL_20240315.html'',
        From_file ''Transportation_Contract_FL_20240315.html'' (options florida ''March 15, 2024''),
        From_string (options florida ''March 15, 2024''),
        From_file ''Transportation_Contract_FL_20240315.html'' simple_options]"
proof -
  let ?tools = "sample_tools False False False"
  have gate: "generate_all (content_html (echo_bedrock ''Terms'') florida)
     = Inr (PStr ''Terms'', PStr ''Terms'', PStr ''Terms'', PStr ''Terms'')"
    by (simp add: generate_all_def content_html_def generate_content_with_bedrock_def
        echo_bedrock_def)
  have truthy: "list_all truthy [PStr ''Terms'', PStr ''Terms'', PStr ''Terms'', PStr ''Terms'']"
    by simp
  have doc: "create_document_html ?tools (contract_title florida)
       ''March 15, 2024'' (PStr ''Terms'') (PStr ''Terms'') (PStr ''Terms'') (PStr ''Terms'')
     = Inr ''<html><p>Terms</p></html>''"
    by (simp add: create_document_html_def sample_tools_def document_blocks_def
        document_block_def List.map_filter_def string_eval)
  have hf: "''Transportation_Contract_FL_20240315.html''
     = generate_filename_html ''Transportation_Contract'' ''20240315'' florida @ ''.html''"
    by (simp add: generate_filename_html_def florida_def)
  have title: "contract_title florida = ''Transportation Services Contract - Florida''"
    by (simp add: contract_title_def florida_def)
  have opened: "open_raises ?tools ''Transportation_Contract_FL_20240315.html'' = None"
    by (simp add: sample_tools_def)
  have written: "write_raises ?tools
      ''Transportation_Contract_FL_20240315.html'' ''<html><p>Terms</p></html>'' = None"
    by (simp add: sample_tools_def)
  have configured: "configuration_raises ?tools = None"
    by (simp add: sample_tools_def)
  have first: "from_file ?tools ''Transportation_Contract_FL_20240315.html''
      (Some ''<html><p>Terms</p></html>'') (options florida ''March 15, 2024'')
      = Inl (LibraryError ''wkhtmltopdf'')"
    by (simp add: sample_tools_def)
  have second: "from_string ?tools ''<html><p>Terms</p></html>''
      (options florida ''March 15, 2024'') = Inl (LibraryError ''wkhtmltopdf'')"
    by (simp add: sample_tools_def)
  have third: "from_file ?tools ''Transportation_Contract_FL_20240315.html''
      (Some ''<html><p>Terms</p></html>'') simple_options = Inl (LibraryError ''wkhtmltopdf'')"
    by (simp add: sample_tools_def)
  from html_kept_on_failure [OF gate truthy doc hf opened written configured first second third,
      where w = fresh] title
  show ?thesis
    by (simp add: fresh_def)
qed

section \<open>Direct-PDF variant: heading levels\<close>

lemma str_nat_digit: "n < 10 \<Longrightarrow> str_nat n = [digit_char n]"
  by (subst str_nat.simps) simp

lemma str_nat_not_Nil: "str_nat n \<noteq> []"
  by (subst str_nat.simps) simp

lemma str_nat_long: "10 \<le> n \<Longrightarrow> 2 \<le> length (str_nat n)"
proof -
  assume "10 \<le> n"
  then have "str_nat n = str_nat (n div 10) @ [digit_char (n mod 10)]"
    by (subst str_nat.simps) simp
  moreover have "1 \<le> length (str_nat (n div 10))"
    using str_nat_not_Nil [of "n div 10"] by (cases "str_nat (n div 10)") auto
  ultimately show ?thesis by simp
qed

lemma heading_name_known:
  "''Heading'' @ str_nat n \<in> set sample_style_names
     \<longleftrightarrow> str_nat n \<in> set [''1'', ''2'', ''3'', ''4'', ''5'', ''6'']"
  by (simp add: sample_style_names_def)

lemma small_cases: "n < 10 \<Longrightarrow> n \<in> set [0, 1, 2, 3, 4, 5, 6, 7, 8, 9 :: nat]"
  by auto

lemma str_nat_one_digit:
  "str_nat n \<in> set [''1'', ''2'', ''3'', ''4'', ''5'', ''6''] \<longleftrightarrow> 1 \<le> n \<and> n \<le> 6"
proof (cases "n < 10")
  case True
  from small_cases [OF True] show ?thesis
    by (auto simp: str_nat_digit digit_char_def)
next
  case False
  then have "2 \<le> length (str_nat n)" by (simp add: str_nat_long)
  with False show ?thesis by auto
qed

lemma heading_style_iff:
  "style_lookup (''Heading'' @ str_nat level)
     = (if 1 \<le> level \<and> level \<le> 6 then Inr (''Heading'' @ str_nat level) else Inl KeyError)"
  unfolding style_lookup_def heading_name_known str_nat_one_digit by simp

lemma heading_lookup_raises: "6 < level \<Longrightarrow> block_paragraph rl (Heading level txt) = Inl KeyError"
  unfolding block_paragraph.simps heading_style_iff by simp


lemma heading_count_positive: "startswith ''#'' s \<Longrightarrow> 1 \<le> str_count CHR ''#'' s"
  by (auto simp: startswith_marker str_count_def)

lemma story_body_bad_heading:
  "section \<in> set sections \<Longrightarrow> startswith ''#'' section \<Longrightarrow> 6 < str_count CHR ''#'' section
     \<Longrightarrow> \<exists>e. story_body rl sections = Inl e"
proof (induction sections)
  case Nil
  then show ?case by simp
next
  case (Cons s sections)
  show ?case
  proof (cases "section = s")
    case True
    with Cons.prems heading_depth_count [of s] heading_lookup_raises
    show ?thesis by simp
  next
    case False
    with Cons obtain e where rest: "story_body rl sections = Inl e" by auto
    show ?thesis
    proof (cases "document_block s")
      case None
      with rest show ?thesis by simp
    next
      case (Some b)
      with rest show ?thesis
        by (cases "block_paragraph rl b") simp_all
    qed
  qed
qed

lemma story_body_headings:
  assumes "story_body rl sections = Inr ps"
  shows "list_all (\<lambda>section. startswith ''#'' section \<longrightarrow>
            1 \<le> str_count CHR ''#'' section \<and> str_count CHR ''#'' section \<le> 6) sections"
proof -
  have "1 \<le> str_count CHR ''#'' s \<and> str_count CHR ''#'' s \<le> 6"
    if "s \<in> set sections" and "startswith ''#'' s" for s
  proof -
    have "\<not> 6 < str_count CHR ''#'' s"
      using story_body_bad_heading [OF that, of rl] assms by auto
    with heading_count_positive [OF that(2)] show ?thesis by simp
  qed
  then show ?thesis by (simp add: list_all_iff)
qed

lemma story_of_body:
  "story_of rl title contract_content rs sa ps = Inr story \<Longrightarrow>
     \<exists>content body. contract_content = PStr content
       \<and> story_body rl (str_split CHR ''\<newline>'' content) = Inr body"
  by (cases contract_content)
    (auto simp: story_of_def and_then_def split: sum.splits)

lemma create_document_pdf_body:
  "create_document_pdf rl title contract_content rs sa ps = Inr pdf \<Longrightarrow>
     \<exists>content body. contract_content = PStr content
       \<and> story_body rl (str_split CHR ''\<newline>'' content) = Inr body"
  using story_of_body [of rl title contract_content rs sa ps]
  by (cases "story_of rl title contract_content rs sa ps")
    (auto simp: create_document_pdf_def)

lemma process_state_pdf_cases:
  "process_state_pdf aws rl date_str w si = (False, w)
   \<or> (\<exists>ct rs sa ps. generate_all (content_pdf aws si) = Inr (ct, rs, sa, ps)
        \<and> list_all truthy [ct, rs, sa, ps]
        \<and> (case create_document_pdf rl (contract_title si) ct rs sa ps of
              Inl e \<Rightarrow> process_state_pdf aws rl date_str w si
                        = (False, called (Create_document (contract_title si)) w)
            | Inr pdf \<Rightarrow> process_state_pdf aws rl date_str w si
                = (True,
                   called (Write_file (generate_filename_pdf ''Transportation_Contract'' date_str si))
                     (stored (generate_filename_pdf ''Transportation_Contract'' date_str si) pdf
                        (called (Create_document (contract_title si)) w)))))"
proof (cases "generate_all (content_pdf aws si)")
  case (Inl e)
  then show ?thesis by (simp add: process_state_pdf_def)
next
  case (Inr r)
  obtain ct rs sa ps where r: "r = (ct, rs, sa, ps)" by (cases r) auto
  show ?thesis
  proof (cases "list_all truthy [ct, rs, sa, ps]")
    case False
    with Inr r show ?thesis by (auto simp: process_state_pdf_def)
  next
    case True
    with Inr r show ?thesis
      by (cases "create_document_pdf rl (contract_title si) ct rs sa ps")
        (auto simp: process_state_pdf_def Let_def)
  qed
qed

lemma process_state_pdf_success:
  assumes "fst (process_state_pdf aws rl date_str w si)"
  shows "\<exists>content body. content_pdf aws si Contract = Inr (PStr content)
           \<and> story_body rl (str_split CHR ''\<newline>'' content) = Inr body"
proof -
  from assms process_state_pdf_cases [of aws rl date_str w si]
  obtain ct rs sa ps where gen: "generate_all (content_pdf aws si) = Inr (ct, rs, sa, ps)"
    and doc: "case create_document_pdf rl (contract_title si) ct rs sa ps of
              Inl e \<Rightarrow> process_state_pdf aws rl date_str w si
                        = (False, called (Create_document (contract_title si)) w)
            | Inr pdf \<Rightarrow> process_state_pdf aws rl date_str w si
                = (True,
                   called (Write_file (generate_filename_pdf ''Transportation_Contract'' date_str si))
                     (stored (generate_filename_pdf ''Transportation_Contract'' date_str si) pdf
                        (called (Create_document (contract_title si)) w)))"
    by auto
  from doc assms obtain pdf where "create_document_pdf rl (contract_title si) ct rs sa ps = Inr pdf"
    by (cases "create_document_pdf rl (contract_title si) ct rs sa ps") auto
  from create_document_pdf_body [OF this] gen show ?thesis
    by (auto simp: generate_all_Inr)
qed

lemma process_state_pdf_failure_files:
  assumes "\<not> fst (process_state_pdf aws rl date_str w si)"
  shows "files (snd (process_state_pdf aws rl date_str w si)) = files w"
proof -
  from process_state_pdf_cases [of aws rl date_str w si]
  consider "process_state_pdf aws rl date_str w si = (False, w)"
    | ct rs sa ps where "case create_document_pdf rl (contract_title si) ct rs sa ps of
              Inl e \<Rightarrow> process_state_pdf aws rl date_str w si
                        = (False, called (Create_document (contract_title si)) w)
            | Inr pdf \<Rightarrow> process_state_pdf aws rl date_str w si
                = (True,
                   called (Write_file (generate_filename_pdf ''Transportation_Contract'' date_str si))
                     (stored (generate_filename_pdf ''Transportation_Contract'' date_str si) pdf
                        (called (Create_document (contract_title si)) w)))"
    by blast
  then show ?thesis
  proof cases
    case 1
    then show ?thesis by simp
  next
    case 2
    with assms show ?thesis
      by (cases "create_document_pdf rl (contract_title si) ct rs sa ps")
        (simp_all add: called_def)
  qed
qed


lemma echo_contents_pdf:
  "generate_all (content_pdf (echo_bedrock reply) si)
     = Inr (PStr reply, PStr reply, PStr reply, PStr reply)"
  by (simp add: generate_all_def content_pdf_def generate_content_with_bedrock_def
      echo_bedrock_def)

lemma lenient_paragraph: "make_paragraph lenient_reportlab txt style = Inr (Paragraph txt style)"
  by (simp add: make_paragraph_def lenient_reportlab_def)

lemma lenient_heading1: "style_lookup ''Heading1'' = Inr ''Heading1''"
  by (simp add: style_lookup_def sample_style_names_def)

lemma lenient_normal: "style_lookup ''Normal'' = Inr ''Normal''"
  by (simp add: style_lookup_def sample_style_names_def)

lemma lenient_table: "table_raises lenient_reportlab rows ws = None"
  by (simp add: lenient_reportlab_def)

lemma one_cell_table:
  "table_rows reply = [[cell]] \<Longrightarrow>
     \<exists>ws. create_table_from_data lenient_reportlab (PStr reply) title
            = Inr [Paragraph (''<b>'' @ title @ ''</b>'') ''TableTitle'', Table [[cell]] ws, Spacer]"
  by (simp add: create_table_from_data_def column_widths_def py_max_def lenient_paragraph
      lenient_table)

lemma one_line_document:
  assumes "table_rows reply = [[cell]]"
    and "story_body lenient_reportlab (str_split CHR ''\<newline>'' reply) = Inr body"
  shows "create_document_pdf lenient_reportlab title (PStr reply) (PStr reply) (PStr reply)
           (PStr reply) = Inr ''%PDF''"
proof -
  from one_cell_table [OF assms(1)] obtain a b c where
    "create_table_from_data lenient_reportlab (PStr reply) ''Attachment A: Rate Schedule'' = Inr a"
    "create_table_from_data lenient_reportlab (PStr reply) ''Attachment B: Service Areas'' = Inr b"
    "create_table_from_data lenient_reportlab (PStr reply)
       ''Attachment C: Performance Standards'' = Inr c"
    by metis
  with assms(2) have "\<exists>story. story_of lenient_reportlab title (PStr reply) (PStr reply)
      (PStr reply) (PStr reply) = Inr story"
    by (simp add: story_of_def lenient_heading1 lenient_paragraph)
  then show ?thesis
    by (auto simp: create_document_pdf_def lenient_reportlab_def)
qed

lemma body_example:
  "story_body lenient_reportlab (str_split CHR ''\<newline>'' ''x#######'')
     = Inr [Paragraph ''x#######'' ''Normal'']"
  by (simp add: document_block_def string_eval lenient_normal lenient_paragraph)

lemma rows_example: "table_rows ''x#######'' = [[''x#######'']]"
  by (simp add: table_rows_def string_eval)

text \<open>
  C9, as stated, fails for a line that holds more than six markers and does not start
  with one: it is a body paragraph, no heading style is looked up for it, and with a
  layout library that raises on nothing the record is assembled.
\<close>

theorem heading_level_counterexample:
  "str_count CHR ''#'' ''x#######'' = 7
   \<and> content_pdf (echo_bedrock ''x#######'') florida Contract = Inr (PStr ''x#######'')
   \<and> fst (process_state_pdf (echo_bedrock ''x#######'') lenient_reportlab ''20240315'' fresh
          florida) = True"
proof -
  have "create_document_pdf lenient_reportlab (contract_title florida) (PStr ''x#######'')
          (PStr ''x#######'') (PStr ''x#######'') (PStr ''x#######'') = Inr ''%PDF''"
    using rows_example body_example by (rule one_line_document)
  then have "fst (process_state_pdf (echo_bedrock ''x#######'') lenient_reportlab ''20240315'' fresh
          florida) = True"
    by (simp add: process_state_pdf_def echo_contents_pdf Let_def)
  moreover have "content_pdf (echo_bedrock ''x#######'') florida Contract = Inr (PStr ''x#######'')"
    using echo_contents_pdf [of "''x#######''" florida] by (simp add: generate_all_Inr)
  ultimately show ?thesis by (simp add: str_count_def)
qed


lemma marker_not_blank: "0 < str_count CHR ''#'' s \<Longrightarrow> str_strip s \<noteq> []"
proof -
  assume pos: "0 < str_count CHR ''#'' s"
  have "CHR ''#'' \<in> set s"
  proof (rule ccontr)
    assume "CHR ''#'' \<notin> set s"
    then have "count_list s CHR ''#'' = 0" by (rule count_list_0)
    with pos show False by (simp add: str_count_def)
  qed
  moreover have "\<not> is_space CHR ''#''" by (simp add: is_space_def)
  ultimately have "\<not> list_all is_space s" by (auto simp: list_all_iff)
  then show ?thesis by (simp add: str_strip_def strip_by_Nil_iff)
qed

lemma body_line_story:
  assumes "\<not> startswith ''#'' seg" and "str_strip seg \<noteq> []"
  shows "story_body rl (seg # rest)
     = and_then (make_paragraph rl seg ''Normal'')
         (\<lambda>p. and_then (story_body rl rest) (\<lambda>ps. Inr (p # ps)))"
  using assms by (simp add: body_block lenient_normal)


text \<open>
  C9, amended. The style \<open>Heading\<close>\<^emph>\<open>n\<close> is missing from the style sheet for every
  \<open>n\<close> above 6, so making the paragraph of such a heading raises \<open>KeyError\<close>. If the
  contract body has a line that starts with the marker and holds more than six
  markers, \<open>process_state\<close> returns \<open>False\<close> and no file is written. Hence, when
  \<open>process_state\<close> returns \<open>True\<close>, the contract body is a string each of whose
  lines that start with the marker holds between one and six markers. A line that
  holds more than six markers and does not start with one is a body block: no heading
  style is looked up for it, its paragraph is made with the style \<open>Normal\<close>, and the
  loop goes on to the lines that follow it when the layout library makes that paragraph.
\<close>

theorem heading_level_bound:
  "(6 < level \<longrightarrow> block_paragraph rl (Heading level txt) = Inl KeyError)
   \<and> (content_pdf aws si Contract = Inr (PStr content)
        \<and> line \<in> set (str_split CHR ''\<newline>'' content)
        \<and> startswith ''#'' line \<and> 6 < str_count CHR ''#'' line \<longrightarrow>
      fst (process_state_pdf aws rl date_str w si) = False
      \<and> files (snd (process_state_pdf aws rl date_str w si)) = files w)
   \<and> (fst (process_state_pdf aws rl date_str w si) \<longrightarrow>
        (\<exists>body. content_pdf aws si Contract = Inr (PStr body)
           \<and> list_all (\<lambda>line. startswith ''#'' line \<longrightarrow>
                  1 \<le> str_count CHR ''#'' line \<and> str_count CHR ''#'' line \<le> 6)
                (str_split CHR ''\<newline>'' body)))
   \<and> (\<not> startswith ''#'' seg \<and> 6 < str_count CHR ''#'' seg \<longrightarrow>
        document_block seg = Some (Body seg)
        \<and> block_paragraph rl (Body seg) = make_paragraph rl seg ''Normal''
        \<and> story_body rl (seg # rest)
            = and_then (make_paragraph rl seg ''Normal'')
                (\<lambda>p. and_then (story_body rl rest) (\<lambda>ps. Inr (p # ps))))"
proof (intro conjI impI)
  assume "6 < level"
  then show "block_paragraph rl (Heading level txt) = Inl KeyError"
    by (rule heading_lookup_raises)
next
  assume bad: "content_pdf aws si Contract = Inr (PStr content)
        \<and> line \<in> set (str_split CHR ''\<newline>'' content)
        \<and> startswith ''#'' line \<and> 6 < str_count CHR ''#'' line"
  have failed: "\<not> fst (process_state_pdf aws rl date_str w si)"
  proof
    assume "fst (process_state_pdf aws rl date_str w si)"
    from process_state_pdf_success [OF this] bad obtain body
      where "story_body rl (str_split CHR ''\<newline>'' content) = Inr body"
      by auto
    moreover from bad obtain e where "story_body rl (str_split CHR ''\<newline>'' content) = Inl e"
      using story_body_bad_heading [of line "str_split CHR ''\<newline>'' content" rl] by auto
    ultimately show False by simp
  qed
  then show "fst (process_state_pdf aws rl date_str w si) = False" by simp
  from failed show "files (snd (process_state_pdf aws rl date_str w si)) = files w"
    by (rule process_state_pdf_failure_files)
next
  assume "fst (process_state_pdf aws rl date_str w si)"
  from process_state_pdf_success [OF this] obtain body ps
    where "content_pdf aws si Contract = Inr (PStr body)"
      and "story_body rl (str_split CHR ''\<newline>'' body) = Inr ps"
    by blast
  with story_body_headings [of rl "str_split CHR ''\<newline>'' body" ps]
  show "\<exists>body. content_pdf aws si Contract = Inr (PStr body)
           \<and> list_all (\<lambda>line. startswith ''#'' line \<longrightarrow>
                  1 \<le> str_count CHR ''#'' line \<and> str_count CHR ''#'' line \<le> 6)
                (str_split CHR ''\<newline>'' body)"
    by blast
next
  assume seg: "\<not> startswith ''#'' seg \<and> 6 < str_count CHR ''#'' seg"
  then have body: "\<not> startswith ''#'' seg" and filled: "str_strip seg \<noteq> []"
    using marker_not_blank [of seg] by simp_all
  from body filled show "document_block seg = Some (Body seg)" by (rule body_block)
  show "block_paragraph rl (Body seg) = make_paragraph rl seg ''Normal''"
    by (simp add: lenient_normal)
  from body filled show "story_body rl (seg # rest)
            = and_then (make_paragraph rl seg ''Normal'')
                (\<lambda>p. and_then (story_body rl rest) (\<lambda>ps. Inr (p # ps)))"
    by (rule body_line_story)
qed

lemma echo_contract:
  "content_pdf (echo_bedrock reply) si Contract = Inr (PStr reply)"
  using echo_contents_pdf [of reply si] by (simp add: generate_all_Inr)

lemma title_body:
  "story_body lenient_reportlab (str_split CHR ''\<newline>'' ''# Title'')
     = Inr [Paragraph ''Title'' ''Heading1'']"
  by (simp add: document_block_def string_eval str_nat_digit digit_char_def lenient_heading1
      lenient_paragraph)

lemma title_rows: "table_rows ''# Title'' = [[''# Title'']]"
  by (simp add: table_rows_def string_eval)

text \<open>C9, amended, on a body whose one line holds seven markers, on a body whose
  one line is a heading of level 1, and on the line \<open>x#######\<close>.\<close>

theorem heading_level_bound_witness:
  "block_paragraph lenient_reportlab (Heading 7 ''Deep'') = Inl KeyError
   \<and> fst (process_state_pdf (echo_bedrock ''####### Deep'') lenient_reportlab ''20240315'' fresh
          florida) = False
   \<and> files (snd (process_state_pdf (echo_bedrock ''####### Deep'') lenient_reportlab ''20240315''
          fresh florida)) = files fresh
   \<and> fst (process_state_pdf (echo_bedrock ''# Title'') lenient_reportlab ''20240315'' fresh florida)
   \<and> str_count CHR ''#'' ''# Title'' = 1
   \<and> str_count CHR ''#'' ''x#######'' = 7
   \<and> document_block ''x#######'' = Some (Body ''x#######'')
   \<and> story_body lenient_reportlab [''x#######''] = Inr [Paragraph ''x#######'' ''Normal'']"
proof -
  note deep = heading_level_bound [of 7 lenient_reportlab "''Deep''" "echo_bedrock ''####### Deep''"
      florida "''####### Deep''" "''####### Deep''" "''20240315''" fresh "''x#######''" "[]"]
  note title = heading_level_bound [of 7 lenient_reportlab "''Deep''" "echo_bedrock ''# Title''"
      florida "''# Title''" "''# Title''" "''20240315''" fresh "''x#######''" "[]"]
  have lookup: "block_paragraph lenient_reportlab (Heading 7 ''Deep'') = Inl KeyError"
    using deep by simp
  have "content_pdf (echo_bedrock ''####### Deep'') florida Contract = Inr (PStr ''####### Deep'')
        \<and> ''####### Deep'' \<in> set (str_split CHR ''\<newline>'' ''####### Deep'')
        \<and> startswith ''#'' ''####### Deep'' \<and> 6 < str_count CHR ''#'' ''####### Deep''"
    by (simp add: echo_contract startswith_def str_count_def)
  with deep have failed: "fst (process_state_pdf (echo_bedrock ''####### Deep'') lenient_reportlab
      ''20240315'' fresh florida) = False
    \<and> files (snd (process_state_pdf (echo_bedrock ''####### Deep'') lenient_reportlab ''20240315''
          fresh florida)) = files fresh"
    by blast
  have ok: "fst (process_state_pdf (echo_bedrock ''# Title'') lenient_reportlab ''20240315''
      fresh florida)"
    using one_line_document [OF title_rows title_body, of "contract_title florida"]
    by (simp add: process_state_pdf_def echo_contents_pdf Let_def)
  from title ok
  have bounded: "list_all (\<lambda>line. startswith ''#'' line \<longrightarrow>
                  1 \<le> str_count CHR ''#'' line \<and> str_count CHR ''#'' line \<le> 6)
                (str_split CHR ''\<newline>'' ''# Title'')"
    by (auto simp: echo_contract)
  have one: "str_count CHR ''#'' ''# Title'' = 1"
    by (simp add: str_count_def)
  have seven: "str_count CHR ''#'' ''x#######'' = 7"
    by (simp add: str_count_def)
  have "\<not> startswith ''#'' ''x#######'' \<and> 6 < str_count CHR ''#'' ''x#######''"
    by (simp add: startswith_def str_count_def)
  with deep have body: "document_block ''x#######'' = Some (Body ''x#######'')
      \<and> story_body lenient_reportlab [''x#######'']
            = and_then (make_paragraph lenient_reportlab ''x#######'' ''Normal'')
                (\<lambda>p. and_then (story_body lenient_reportlab []) (\<lambda>ps. Inr (p # ps)))"
    by blast
  then have "story_body lenient_reportlab [''x#######'']
      = and_then (make_paragraph lenient_reportlab ''x#######'' ''Normal'')
          (\<lambda>p. and_then (story_body lenient_reportlab []) (\<lambda>ps. Inr (p # ps)))"
    by blast
  also have "\<dots> = Inr [Paragraph ''x#######'' ''Normal'']"
    by (simp add: lenient_paragraph)
  finally have story: "story_body lenient_reportlab [''x#######'']
      = Inr [Paragraph ''x#######'' ''Normal'']" .
  from lookup failed ok one seven body story show ?thesis by blast
qed

end
